theory Spec2Isabelle
  imports Complex_Main
begin

section \<open>Values, functions and errors\<close>

text \<open>
  The expression language of the repository: a tokenizer (\<open>Tokenizer.ts\<close>), an operator
  registry (\<open>Operator.ts\<close>), a table of named functions (\<open>FunctionMap.ts\<close>), a
  shunting-yard tree builder (\<open>AST.ts\<close>) and an evaluator (\<open>ExprNode.ts\<close>), together with the
  compiled script \<open>shunting_yard.js\<close> that ships beside the TypeScript modules.

  JavaScript strings are modelled as \<open>string\<close>, one \<open>char\<close> for one code unit. Every test
  the scanner makes on a code unit compares it with the codes of ASCII characters, so a
  code unit beyond the range of \<open>char\<close> behaves as any other character the scanner does not
  know. JavaScript numbers are modelled as real numbers: the numeric examples below only
  involve small integers and one decimal literal under \<open>Math.floor\<close>, for which real and
  double arithmetic agree.
\<close>

text \<open>
  The JavaScript function values of the program: the arrow functions handed to the
  \<open>Operator\<close> constructor (lines 116 to 122 of \<open>Operator.ts\<close>) and the members of
  \<open>FunctionMap\<close>.
\<close>

datatype jsfunction =
    Add | Sub | Mul | Div | Mod | MathPow | Negate
  | Fmax | Fmin | Frand | Ffloor | Fceil | Fround

text \<open>The \<open>length\<close> property of a function value: the number of declared parameters.\<close>

fun function_length :: "jsfunction \<Rightarrow> nat" where
  "function_length Add = 2"
| "function_length Sub = 2"
| "function_length Mul = 2"
| "function_length Div = 2"
| "function_length Mod = 2"
| "function_length MathPow = 2"
| "function_length Negate = 1"
| "function_length Fmax = 2"
| "function_length Fmin = 2"
| "function_length Frand = 0"
| "function_length Ffloor = 1"
| "function_length Fceil = 1"
| "function_length Fround = 1"

text \<open>
  \<open>func.apply(null, args)\<close>. The result is \<open>None\<close> where JavaScript yields a value that is
  not a determinate real number: \<open>NaN\<close> or an infinity (division by zero, a missing
  operand), an irrational power, or a draw of \<open>Math.random\<close>. Surplus arguments are ignored,
  as \<open>apply\<close> ignores them.
\<close>

fun apply_function :: "jsfunction \<Rightarrow> real list \<Rightarrow> real option" where
  "apply_function Add (a # b # _) = Some (a + b)"
| "apply_function Sub (a # b # _) = Some (a - b)"
| "apply_function Mul (a # b # _) = Some (a * b)"
| "apply_function Div (a # b # _) = (if b = 0 then None else Some (a / b))"
| "apply_function Mod (a # b # _) =
     (if b = 0 then None
      else Some (a - b * of_int (if 0 \<le> a / b then \<lfloor>a / b\<rfloor> else \<lceil>a / b\<rceil>)))"
| "apply_function MathPow (a # b # _) =
     (if b = of_int \<lfloor>b\<rfloor> then
        (if 0 \<le> b then Some (a ^ nat \<lfloor>b\<rfloor>)
         else if a = 0 then None
         else Some (1 / a ^ nat (- \<lfloor>b\<rfloor>)))
      else None)"
| "apply_function Negate (a # _) = Some (- a)"
| "apply_function Fmax (a # b # _) = Some (if a > b then a else b)"
| "apply_function Fmin (a # b # _) = Some (if a < b then a else b)"
| "apply_function Ffloor (a # _) = Some (of_int \<lfloor>a\<rfloor>)"
| "apply_function Fceil (a # _) = Some (of_int \<lceil>a\<rceil>)"
| "apply_function Fround (a # _) = Some (of_int \<lfloor>a + 1 / 2\<rfloor>)"
| "apply_function _ _ = None"

text \<open>
  Every \<open>throw\<close> of the sources, by its message, and the \<open>TypeError\<close> the JavaScript engine
  raises when a property of \<open>undefined\<close> is read. \<open>NotARealNumber\<close> is not an exception of the
  program: it marks an evaluation whose JavaScript result lies outside the real numbers
  (see \<open>apply_function\<close>), about which the model says nothing.
\<close>

datatype error =
    UnexpectedTokenOrSymbol string
  | OperatorSymbolsMustBeUnique
  | MismatchedRightParenthesis
  | MismatchedLeftParenthesis
  | InvalidOperatorOrFunctionToken
  | NotEnoughExpressions
  | UnexpectedTokenType
  | TypeError
  | NotARealNumber

section \<open>The operator registry (\<open>Operator.ts\<close>)\<close>

record Operator =
  symbol :: string
  precedence :: int
  isLeftAssociative :: bool
  func :: jsfunction
  length_op :: nat

text \<open>
  One element of \<open>Operator.dictionary\<close>: the operators whose symbols have a given length,
  keyed by symbol.
\<close>

record dictionary_entry =
  symbolLength :: nat
  opMap :: "string \<rightharpoonup> Operator"

text \<open>
  \<open>String.prototype.substring(start, end)\<close> and \<open>String.prototype.substr(start, length)\<close>
  on natural-number arguments: \<open>substring\<close> clamps both indices to the length of the string
  and swaps them when they are out of order; \<open>substr\<close> takes at most \<open>length\<close> characters
  from \<open>start\<close>. \<open>charAt\<close> is the empty string out of range.
\<close>

definition substring :: "string \<Rightarrow> nat \<Rightarrow> nat \<Rightarrow> string" where
  "substring s start end =
     (let a = min start (length s); b = min end (length s)
      in take (max a b - min a b) (drop (min a b) s))"

definition substr :: "string \<Rightarrow> nat \<Rightarrow> nat \<Rightarrow> string" where
  "substr s start len = take len (drop start s)"

definition charAt :: "string \<Rightarrow> nat \<Rightarrow> string" where
  "charAt s i = take 1 (drop i s)"

text \<open>
  \<open>Operator.parse\<close>: the entries are visited in the order of the dictionary; the first entry
  whose length fits and whose map owns the substring decides.
\<close>

fun Operator_parse_loop :: "dictionary_entry list \<Rightarrow> string \<Rightarrow> nat \<Rightarrow> Operator option" where
  "Operator_parse_loop [] expr startIndex = None"
| "Operator_parse_loop (entry # rest) expr startIndex =
     (let endIndex = startIndex + symbolLength entry in
      if endIndex > length expr then Operator_parse_loop rest expr startIndex
      else
        (let testedString = substring expr startIndex endIndex;
             map = opMap entry
         in case map testedString of
              Some op \<Rightarrow> Some op
            | None \<Rightarrow> Operator_parse_loop rest expr startIndex))"

text \<open>
  \<open>Operator.register\<close>. The loop of step 1 keeps the last entry of the wanted length; the
  entry is a reference into the dictionary, so the model keeps its index. Step 2 pushes a
  fresh entry and sorts by descending symbol length. Step 3 fails on a symbol the map
  already owns and stores the operator otherwise.
\<close>

definition find_entry :: "dictionary_entry list \<Rightarrow> nat \<Rightarrow> nat option" where
  "find_entry dic opLength =
     (case filter (\<lambda>i. symbolLength (dic ! i) = opLength) [0..<length dic] of
        [] \<Rightarrow> None
      | i # is \<Rightarrow> Some (last (i # is)))"

definition sort_descending :: "dictionary_entry list \<Rightarrow> dictionary_entry list" where
  "sort_descending dic = sort_key (\<lambda>e. - int (symbolLength e)) dic"

definition register :: "dictionary_entry list \<Rightarrow> Operator \<Rightarrow> error + dictionary_entry list" where
  "register dic op =
     (let opLength = length (symbol op);
          dic1 = (case find_entry dic opLength of
                    Some _ \<Rightarrow> dic
                  | None \<Rightarrow>
                      sort_descending
                        (dic @ [\<lparr>symbolLength = opLength, opMap = Map.empty\<rparr>]))
      in case find_entry dic1 opLength of
           None \<Rightarrow> Inr dic1
         | Some i \<Rightarrow>
             (let map = opMap (dic1 ! i) in
              if map (symbol op) \<noteq> None then Inl OperatorSymbolsMustBeUnique
              else Inr (dic1[i := (dic1 ! i)\<lparr>opMap := map(symbol op \<mapsto> op)\<rparr>])))"

text \<open>
  The constructor fills the fields (\<open>length\<close> from the function value); its call of
  \<open>Operator.register\<close> is the step of \<open>register_all\<close> below.
\<close>

definition new_Operator ::
  "int \<Rightarrow> string \<Rightarrow> bool \<Rightarrow> jsfunction \<Rightarrow> Operator" where
  "new_Operator p s l f =
     \<lparr>symbol = s, precedence = p, isLeftAssociative = l, func = f,
      length_op = function_length f\<rparr>"

text \<open>The seven operators created when the module is loaded, in the order of creation.\<close>

definition created_operators :: "Operator list" where
  "created_operators =
     [new_Operator 0 ''+'' True Add,
      new_Operator 0 ''-'' True Sub,
      new_Operator 1 ''*'' True Mul,
      new_Operator 1 ''/'' True Div,
      new_Operator 1 ''%'' True Mod,
      new_Operator 2 ''**'' False MathPow,
      new_Operator 3 ''~'' False Negate]"

fun register_all :: "dictionary_entry list \<Rightarrow> Operator list \<Rightarrow> error + dictionary_entry list" where
  "register_all dic [] = Inr dic"
| "register_all dic (op # ops) =
     (case register dic op of
        Inl e \<Rightarrow> Inl e
      | Inr dic' \<Rightarrow> register_all dic' ops)"

text \<open>\<open>Operator.dictionary\<close> as the tokenizer finds it: the state after the seven constructions.\<close>

definition dictionary :: "dictionary_entry list" where
  "dictionary = (case register_all [] created_operators of Inr dic \<Rightarrow> dic | Inl _ \<Rightarrow> [])"

definition Operator_parse :: "string \<Rightarrow> nat \<Rightarrow> Operator option" where
  "Operator_parse expr startIndex = Operator_parse_loop dictionary expr startIndex"

section \<open>The function table (\<open>FunctionMap.ts\<close>)\<close>

definition FunctionMap :: "string \<rightharpoonup> jsfunction" where
  "FunctionMap =
     [''max'' \<mapsto> Fmax, ''min'' \<mapsto> Fmin, ''rand'' \<mapsto> Frand,
      ''floor'' \<mapsto> Ffloor, ''ceil'' \<mapsto> Fceil, ''round'' \<mapsto> Fround]"

section \<open>Tokens (\<open>Token.ts\<close>, \<open>TokenType.ts\<close>)\<close>

datatype TokenType =
  Number | Operator | LeftParenthesis | RightParenthesis | Function | ArgumentSeparator

text \<open>
  A token is frozen at construction, and its type is computed from its value by
  \<open>Token.resolveType\<close>: a number, an \<open>Operator\<close>, one of the strings \<open>(\<close>, \<open>)\<close> and \<open>,\<close>, or a
  function (any other value makes the constructor throw, and the tokenizer passes none).
  A token is therefore one of six shapes, each carrying the value of its kind.
\<close>

datatype Token =
    NumberToken real
  | OperatorToken Operator
  | LeftParenthesisToken
  | RightParenthesisToken
  | ArgumentSeparatorToken
  | FunctionToken jsfunction

fun type :: "Token \<Rightarrow> TokenType" where
  "type (NumberToken _) = Number"
| "type (OperatorToken _) = Operator"
| "type LeftParenthesisToken = LeftParenthesis"
| "type RightParenthesisToken = RightParenthesis"
| "type ArgumentSeparatorToken = ArgumentSeparator"
| "type (FunctionToken _) = Function"

text \<open>\<open>new Token(char)\<close> for the three punctuation characters the tokenizer passes.\<close>

definition punctuation_Token :: "string \<Rightarrow> Token option" where
  "punctuation_Token char =
     (if char = ''('' then Some LeftParenthesisToken
      else if char = '')'' then Some RightParenthesisToken
      else if char = '','' then Some ArgumentSeparatorToken
      else None)"

section \<open>The tokenizer (\<open>Tokenizer.ts\<close>)\<close>

record ParseInfo =
  token :: Token
  charsRead :: nat

text \<open>\<open>charCodeAt\<close>; \<open>None\<close> stands for the \<open>NaN\<close> of an index out of range.\<close>

definition charCodeAt :: "string \<Rightarrow> nat \<Rightarrow> nat option" where
  "charCodeAt s i = (if i < length s then Some (of_char (s ! i)) else None)"

definition isAlphabetic :: "string \<Rightarrow> nat \<Rightarrow> bool" where
  "isAlphabetic str index =
     (case charCodeAt str index of
        None \<Rightarrow> False
      | Some charCode \<Rightarrow>
          (charCode \<ge> of_char CHR ''a'' \<and> charCode \<le> of_char CHR ''z'')
          \<or> (charCode \<ge> of_char CHR ''A'' \<and> charCode \<le> of_char CHR ''Z''))"

definition isAlphaNumeric :: "string \<Rightarrow> nat \<Rightarrow> bool" where
  "isAlphaNumeric str index =
     (case charCodeAt str index of
        None \<Rightarrow> False
      | Some charCode \<Rightarrow>
          (charCode \<ge> of_char CHR ''0'' \<and> charCode \<le> of_char CHR ''9'')
          \<or> (charCode \<ge> of_char CHR ''a'' \<and> charCode \<le> of_char CHR ''z'')
          \<or> (charCode \<ge> of_char CHR ''A'' \<and> charCode \<le> of_char CHR ''Z''))"

text \<open>
  The conversion \<open>Number(s)\<close> of JavaScript, on the strings \<open>readNumber\<close> passes to it:
  decimal digits with at most one decimal mark.
\<close>

definition digits_value :: "string \<Rightarrow> nat" where
  "digits_value s = foldl (\<lambda>a c. 10 * a + (of_char c - of_char CHR ''0'')) 0 s"

definition toNumber :: "string \<Rightarrow> real" where
  "toNumber s =
     (let whole = takeWhile (\<lambda>c. c \<noteq> CHR ''.'') s;
          fraction = drop 1 (dropWhile (\<lambda>c. c \<noteq> CHR ''.'') s)
      in real (digits_value whole) + real (digits_value fraction) / 10 ^ length fraction)"

text \<open>
  The \<open>for\<close> loop of \<open>readNumber\<close>: it returns the index at which it stops and the flag
  \<open>decimalMark\<close>.
\<close>

function readNumber_loop :: "string \<Rightarrow> nat \<Rightarrow> nat \<Rightarrow> nat \<times> nat" where
  "readNumber_loop expr i decimalMark =
     (if i < length expr then
        (if charCodeAt expr i = Some (of_char CHR ''.'') then
           (if decimalMark = 1 then (i, decimalMark)
            else readNumber_loop expr (i + 1) 1)
         else if (case charCodeAt expr i of
                    None \<Rightarrow> False
                  | Some charCode \<Rightarrow>
                      charCode < of_char CHR ''0'' \<or> charCode > of_char CHR ''9'')
              then (i, decimalMark)
         else readNumber_loop expr (i + 1) decimalMark)
      else (i, decimalMark))"
  by pat_completeness auto
termination
  by (relation "measure (\<lambda>(expr, i, decimalMark). length expr - i)") auto

declare readNumber_loop.simps [simp del]

definition readNumber :: "string \<Rightarrow> nat \<Rightarrow> ParseInfo option" where
  "readNumber expr index =
     (let (i, decimalMark) = readNumber_loop expr index 0;
          charsRead = i - index
      in if int charsRead - int decimalMark = 0 then None
         else
           (let parsedNumber = toNumber (substr expr index charsRead)
            in Some \<lparr>token = NumberToken parsedNumber, charsRead = charsRead\<rparr>))"

text \<open>The \<open>for\<close> loop of \<open>readFunction\<close>: the index of the first character that ends the name.\<close>

function readFunction_loop :: "string \<Rightarrow> nat \<Rightarrow> nat" where
  "readFunction_loop expr i =
     (if i < length expr then
        (if \<not> isAlphaNumeric expr i then i else readFunction_loop expr (i + 1))
      else i)"
  by pat_completeness auto
termination
  by (relation "measure (\<lambda>(expr, i). length expr - i)") auto

declare readFunction_loop.simps [simp del]

text \<open>
  \<open>readFunction\<close> of \<open>Tokenizer.ts\<close>: the name is taken with \<open>expr.substr(index, i)\<close>, where
  \<open>i\<close> is the index at which the loop stopped.
\<close>

definition readFunction :: "string \<Rightarrow> nat \<Rightarrow> ParseInfo option" where
  "readFunction expr index =
     (if \<not> isAlphabetic expr index then None
      else
        (let i = readFunction_loop expr (index + 1);
             functionName = substr expr index i
         in case FunctionMap functionName of
              None \<Rightarrow> None
            | Some f \<Rightarrow> Some \<lparr>token = FunctionToken f, charsRead = i - index\<rparr>))"

definition readToken :: "string \<Rightarrow> nat \<Rightarrow> ParseInfo option" where
  "readToken expr index =
     (case readNumber expr index of
        Some info \<Rightarrow> Some info
      | None \<Rightarrow>
          (case Operator_parse expr index of
             Some op \<Rightarrow> Some \<lparr>token = OperatorToken op, charsRead = length (symbol op)\<rparr>
           | None \<Rightarrow>
               (case punctuation_Token (charAt expr index) of
                  Some t \<Rightarrow> Some \<lparr>token = t, charsRead = 1\<rparr>
                | None \<Rightarrow> readFunction expr index)))"

definition isWhitespace :: "nat option \<Rightarrow> bool" where
  "isWhitespace charCode =
     (charCode = Some (of_char CHR '' '') \<or> charCode = Some (of_char CHR 0x0A)
      \<or> charCode = Some (of_char CHR 0x0D) \<or> charCode = Some (of_char CHR 0x09))"

text \<open>
  The \<open>while\<close> loop of \<open>tokenize\<close>. The index advances by what \<open>readToken\<close> reports, so the
  loop is defined as a partial function: \<open>None\<close> would be a run that never returns.
\<close>

partial_function (option) tokenize_loop ::
  "string \<Rightarrow> nat \<Rightarrow> Token list \<Rightarrow> (error + Token list) option" where
  "tokenize_loop expr i tokenList =
     (if i < length expr then
        (if isWhitespace (charCodeAt expr i) then tokenize_loop expr (i + 1) tokenList
         else
           (case readToken expr i of
              None \<Rightarrow> Some (Inl (UnexpectedTokenOrSymbol (charAt expr i)))
            | Some info \<Rightarrow>
                tokenize_loop expr (i + charsRead info) (tokenList @ [token info])))
      else Some (Inr tokenList))"

definition tokenize :: "string \<Rightarrow> (error + Token list) option" where
  "tokenize expr = tokenize_loop expr 0 []"

section \<open>The tokenizer of the compiled script (\<open>shunting_yard.js\<close>)\<close>

text \<open>
  The compiled script repeats the modules above. Its \<open>readFunction\<close> takes the name with
  \<open>expr.substring(index, i)\<close>; the other functions of its tokenizer read as in
  \<open>Tokenizer.ts\<close> (it also writes to the console, which returns nothing to the program).
\<close>

definition readFunction_js :: "string \<Rightarrow> nat \<Rightarrow> ParseInfo option" where
  "readFunction_js expr index =
     (if \<not> isAlphabetic expr index then None
      else
        (let i = readFunction_loop expr (index + 1);
             functionName = substring expr index i
         in case FunctionMap functionName of
              None \<Rightarrow> None
            | Some f \<Rightarrow> Some \<lparr>token = FunctionToken f, charsRead = i - index\<rparr>))"

definition readToken_js :: "string \<Rightarrow> nat \<Rightarrow> ParseInfo option" where
  "readToken_js expr index =
     (case readNumber expr index of
        Some info \<Rightarrow> Some info
      | None \<Rightarrow>
          (case Operator_parse expr index of
             Some op \<Rightarrow> Some \<lparr>token = OperatorToken op, charsRead = length (symbol op)\<rparr>
           | None \<Rightarrow>
               (case punctuation_Token (charAt expr index) of
                  Some t \<Rightarrow> Some \<lparr>token = t, charsRead = 1\<rparr>
                | None \<Rightarrow> readFunction_js expr index)))"

partial_function (option) tokenize_loop_js ::
  "string \<Rightarrow> nat \<Rightarrow> Token list \<Rightarrow> (error + Token list) option" where
  "tokenize_loop_js expr i tokenList =
     (if i < length expr then
        (if isWhitespace (charCodeAt expr i) then tokenize_loop_js expr (i + 1) tokenList
         else
           (case readToken_js expr i of
              None \<Rightarrow> Some (Inl (UnexpectedTokenOrSymbol (charAt expr i)))
            | Some info \<Rightarrow>
                tokenize_loop_js expr (i + charsRead info) (tokenList @ [token info])))
      else Some (Inr tokenList))"

definition tokenize_js :: "string \<Rightarrow> (error + Token list) option" where
  "tokenize_js expr = tokenize_loop_js expr 0 []"

section \<open>Expression nodes and evaluation (\<open>ExprNode.ts\<close>)\<close>

text \<open>
  The constructor takes the children as an optional argument: \<open>new ExprNode(token)\<close> leaves
  the field \<open>undefined\<close>, here \<open>None\<close>.
\<close>

datatype ExprNode = ExprNode (node_token: Token) (children: "ExprNode list option")

text \<open>The first exception of a sequence of results, or all the values.\<close>

fun sequence :: "(error + 'a) list \<Rightarrow> error + 'a list" where
  "sequence [] = Inr []"
| "sequence (Inl e # _) = Inl e"
| "sequence (Inr x # rs) = (case sequence rs of Inl e \<Rightarrow> Inl e | Inr xs \<Rightarrow> Inr (x # xs))"

text \<open>
  \<open>evaluate\<close>: a number token yields its value; for an operator or a function the children
  are evaluated from left to right (\<open>this.children.map\<close> raises a \<open>TypeError\<close> when the field
  is \<open>undefined\<close>) and the function is applied to the results.
\<close>

fun evaluate :: "ExprNode \<Rightarrow> error + real" where
  "evaluate (ExprNode tok chs) =
     (case tok of
        NumberToken v \<Rightarrow> Inr v
      | _ \<Rightarrow>
        (case (case tok of
                 OperatorToken op \<Rightarrow> Some (func op)
               | FunctionToken f \<Rightarrow> Some f
               | _ \<Rightarrow> None) of
           None \<Rightarrow> Inl UnexpectedTokenType
         | Some f \<Rightarrow>
             (case chs of
                None \<Rightarrow> Inl TypeError
              | Some cs \<Rightarrow>
                  (case sequence (map evaluate cs) of
                     Inl e \<Rightarrow> Inl e
                   | Inr args \<Rightarrow>
                       (case apply_function f args of
                          None \<Rightarrow> Inl NotARealNumber
                        | Some r \<Rightarrow> Inr r)))))"

section \<open>The tree builder (\<open>AST.ts\<close>)\<close>

text \<open>
  The two stacks are JavaScript arrays that grow at the end; the model keeps them as lists
  with the top of the stack at the head. \<open>peek\<close> returns \<open>undefined\<close> (here \<open>None\<close>) on an
  empty array, and reading \<open>.type\<close> of it raises a \<open>TypeError\<close>.
\<close>

definition peek :: "'a list \<Rightarrow> 'a option" where
  "peek array = (case array of [] \<Rightarrow> None | x # _ \<Rightarrow> Some x)"

text \<open>
  \<open>popOperator\<close>: the popped token must be an operator or a function; \<open>argCount\<close> is the
  \<open>length\<close> of its value; the arguments are popped last first, so that the node's children
  keep the order in which they were pushed.
\<close>

definition popOperator ::
  "Token list \<Rightarrow> ExprNode list \<Rightarrow> error + Token list \<times> ExprNode list" where
  "popOperator opStack exprStack =
     (case opStack of
        [] \<Rightarrow> Inl TypeError
      | tok # opStack' \<Rightarrow>
          if type tok \<noteq> Function \<and> type tok \<noteq> Operator
          then Inl InvalidOperatorOrFunctionToken
          else
            (let argCount = (case tok of
                               OperatorToken op \<Rightarrow> length_op op
                             | FunctionToken f \<Rightarrow> function_length f
                             | _ \<Rightarrow> 0)
             in if argCount > length exprStack then Inl NotEnoughExpressions
                else
                  (let args = rev (take argCount exprStack)
                   in Inr (opStack', ExprNode tok (Some args) # drop argCount exprStack))))"

lemma popOperator_shorter:
  "popOperator opStack exprStack = Inr (opStack', exprStack') \<Longrightarrow>
     length opStack' < length opStack"
  by (auto simp: popOperator_def Let_def split: list.splits if_splits)

text \<open>Case 3, a right parenthesis.\<close>

function rightParenthesis_loop ::
  "Token list \<Rightarrow> ExprNode list \<Rightarrow> error + Token list \<times> ExprNode list" where
  "rightParenthesis_loop [] exprStack = Inl MismatchedRightParenthesis"
| "rightParenthesis_loop (topOp # opStack) exprStack =
     (if type topOp = LeftParenthesis then
        (case peek opStack of
           None \<Rightarrow> Inl TypeError
         | Some next \<Rightarrow>
             if type next = Function then popOperator opStack exprStack
             else Inr (opStack, exprStack))
      else
        (case popOperator (topOp # opStack) exprStack of
           Inl e \<Rightarrow> Inl e
         | Inr (opStack', exprStack') \<Rightarrow> rightParenthesis_loop opStack' exprStack'))"
  by pat_completeness auto
termination
  by (relation "measure (\<lambda>(opStack, exprStack). length opStack)")
     (auto dest: popOperator_shorter)

text \<open>
  Case 4, an operator \<open>op\<close>: operators are popped from the stack until it is empty [1], its
  top is not an operator [2], or the precedence tests [3] and [4] stop the loop.
\<close>

function operator_loop ::
  "Operator \<Rightarrow> Token list \<Rightarrow> ExprNode list \<Rightarrow> error + Token list \<times> ExprNode list" where
  "operator_loop op [] exprStack = Inr ([], exprStack)"
| "operator_loop op (nextOp # opStack) exprStack =
     (case nextOp of
        OperatorToken nextOpValue \<Rightarrow>
          if isLeftAssociative op \<and> precedence op > precedence nextOpValue
          then Inr (nextOp # opStack, exprStack)
          else if \<not> isLeftAssociative op \<and> precedence op \<ge> precedence nextOpValue
          then Inr (nextOp # opStack, exprStack)
          else
            (case popOperator (nextOp # opStack) exprStack of
               Inl e \<Rightarrow> Inl e
             | Inr (opStack', exprStack') \<Rightarrow> operator_loop op opStack' exprStack')
      | _ \<Rightarrow> Inr (nextOp # opStack, exprStack))"
  by pat_completeness auto
termination
  by (relation "measure (\<lambda>(op, opStack, exprStack). length opStack)")
     (auto dest: popOperator_shorter)

text \<open>
  Case 5, an argument separator: until the top of the stack is a left parenthesis, the top
  token is popped and pushed on the expression stack as a node without children.
\<close>

fun argumentSeparator_loop ::
  "Token list \<Rightarrow> ExprNode list \<Rightarrow> error + Token list \<times> ExprNode list" where
  "argumentSeparator_loop [] exprStack = Inl TypeError"
| "argumentSeparator_loop (nextOp # opStack) exprStack =
     (if type nextOp = LeftParenthesis then Inr (nextOp # opStack, exprStack)
      else argumentSeparator_loop opStack (ExprNode nextOp None # exprStack))"

text \<open>The body of the \<open>for\<close> loop: the \<open>switch\<close> on the type of the token.\<close>

fun process_token ::
  "Token \<Rightarrow> Token list \<Rightarrow> ExprNode list \<Rightarrow> error + Token list \<times> ExprNode list" where
  "process_token (NumberToken v) opStack exprStack =
     Inr (opStack, ExprNode (NumberToken v) None # exprStack)"
| "process_token LeftParenthesisToken opStack exprStack =
     Inr (LeftParenthesisToken # opStack, exprStack)"
| "process_token RightParenthesisToken opStack exprStack =
     rightParenthesis_loop opStack exprStack"
| "process_token (OperatorToken op) opStack exprStack =
     (case operator_loop op opStack exprStack of
        Inl e \<Rightarrow> Inl e
      | Inr (opStack', exprStack') \<Rightarrow> Inr (OperatorToken op # opStack', exprStack'))"
| "process_token ArgumentSeparatorToken opStack exprStack =
     argumentSeparator_loop opStack exprStack"
| "process_token (FunctionToken f) opStack exprStack =
     Inr (FunctionToken f # opStack, exprStack)"

fun tokens_loop ::
  "Token list \<Rightarrow> Token list \<Rightarrow> ExprNode list \<Rightarrow> error + Token list \<times> ExprNode list" where
  "tokens_loop [] opStack exprStack = Inr (opStack, exprStack)"
| "tokens_loop (tok # tokens) opStack exprStack =
     (case process_token tok opStack exprStack of
        Inl e \<Rightarrow> Inl e
      | Inr (opStack', exprStack') \<Rightarrow> tokens_loop tokens opStack' exprStack')"

text \<open>The last loop: the operators that remain on the stack are popped.\<close>

function remaining_loop ::
  "Token list \<Rightarrow> ExprNode list \<Rightarrow> error + Token list \<times> ExprNode list" where
  "remaining_loop [] exprStack = Inr ([], exprStack)"
| "remaining_loop (next # opStack) exprStack =
     (if type next = LeftParenthesis then Inl MismatchedLeftParenthesis
      else
        (case popOperator (next # opStack) exprStack of
           Inl e \<Rightarrow> Inl e
         | Inr (opStack', exprStack') \<Rightarrow> remaining_loop opStack' exprStack'))"
  by pat_completeness auto
termination
  by (relation "measure (\<lambda>(opStack, exprStack). length opStack)")
     (auto dest: popOperator_shorter)

text \<open>
  \<open>AST.create\<close>. The result is \<open>exprStack.pop()\<close>: the node on top of the expression stack, or
  \<open>undefined\<close> (here \<open>None\<close>) when the stack is empty.
\<close>

definition create :: "Token list \<Rightarrow> error + ExprNode option" where
  "create tokens =
     (case tokens_loop tokens [] [] of
        Inl e \<Rightarrow> Inl e
      | Inr (opStack, exprStack) \<Rightarrow>
          (case remaining_loop opStack exprStack of
             Inl e \<Rightarrow> Inl e
           | Inr (opStack', exprStack') \<Rightarrow> Inr (peek exprStack')))"

text \<open>
  The three calls in a row, \<open>AST.create(Tokenizer.tokenize(s)).evaluate()\<close>: an exception of
  any stage ends the run, and calling \<open>evaluate\<close> on \<open>undefined\<close> raises a \<open>TypeError\<close>.
\<close>

definition evaluate_create_tokenize :: "string \<Rightarrow> (error + real) option" where
  "evaluate_create_tokenize s =
     (case tokenize s of
        None \<Rightarrow> None
      | Some (Inl e) \<Rightarrow> Some (Inl e)
      | Some (Inr tokens) \<Rightarrow>
          (case create tokens of
             Inl e \<Rightarrow> Some (Inl e)
           | Inr None \<Rightarrow> Some (Inl TypeError)
           | Inr (Some node) \<Rightarrow> Some (evaluate node)))"

section \<open>Vocabulary of the properties\<close>

text \<open>
  The symbol of an operator stands in the text at an index; an operator is stored in a
  dictionary under its symbol; the entries of a dictionary only hold symbols of their own
  length; a result of \<open>Operator.parse\<close> is the longest match.
\<close>

definition symbol_at :: "Operator \<Rightarrow> string \<Rightarrow> nat \<Rightarrow> bool" where
  "symbol_at op expr i =
     (i + length (symbol op) \<le> length expr \<and> take (length (symbol op)) (drop i expr) = symbol op)"

definition registered :: "dictionary_entry list \<Rightarrow> Operator \<Rightarrow> bool" where
  "registered dic op = (\<exists>e \<in> set dic. opMap e (symbol op) = Some op)"

definition entry_ok :: "dictionary_entry \<Rightarrow> bool" where
  "entry_ok e = (\<forall>s op. opMap e s = Some op \<longrightarrow> symbol op = s \<and> length s = symbolLength e)"

definition longest_match :: "dictionary_entry list \<Rightarrow> string \<Rightarrow> nat \<Rightarrow> Operator option \<Rightarrow> bool" where
  "longest_match dic expr i result =
     (case result of
        Some op \<Rightarrow>
          registered dic op \<and> symbol_at op expr i
          \<and> (\<forall>op'. registered dic op' \<and> symbol_at op' expr i \<longrightarrow>
                 length (symbol op') < length (symbol op) \<or> op' = op)
      | None \<Rightarrow> (\<forall>op'. registered dic op' \<longrightarrow> \<not> symbol_at op' expr i))"

text \<open>
  The invariant of a tree: a number is a leaf, and an operator or a function has as many
  children as its value declares parameters, each child a tree of the same kind.
\<close>

fun arity_invariant :: "ExprNode \<Rightarrow> bool" where
  "arity_invariant (ExprNode tok chs) =
     (case tok of
        NumberToken _ \<Rightarrow> chs = None \<or> chs = Some []
      | OperatorToken op \<Rightarrow>
          (case chs of
             None \<Rightarrow> False
           | Some cs \<Rightarrow> length cs = length_op op \<and> list_all arity_invariant cs)
      | FunctionToken f \<Rightarrow>
          (case chs of
             None \<Rightarrow> False
           | Some cs \<Rightarrow> length cs = function_length f \<and> list_all arity_invariant cs)
      | _ \<Rightarrow> False)"

text \<open>
  \<open>n\<close> reductions in a row, none of them of a left parenthesis and each of them successful:
  the stacks they lead to, or \<open>None\<close> when one of them is not possible.
\<close>

fun pops :: "nat \<Rightarrow> Token list \<Rightarrow> ExprNode list \<Rightarrow> (Token list \<times> ExprNode list) option" where
  "pops 0 opStack exprStack = Some (opStack, exprStack)"
| "pops (Suc n) [] exprStack = None"
| "pops (Suc n) (t # opStack) exprStack =
     (if type t = LeftParenthesis then None
      else
        (case popOperator (t # opStack) exprStack of
           Inl e \<Rightarrow> None
         | Inr (opStack', exprStack') \<Rightarrow> pops n opStack' exprStack'))"

text \<open>
  The tokens \<open>AST.create\<close> pushes on the operator stack: left parentheses, operators and
  functions.
\<close>

definition pending :: "Token \<Rightarrow> bool" where
  "pending t = (type t = LeftParenthesis \<or> type t = Operator \<or> type t = Function)"

section \<open>Running the program on concrete inputs\<close>

text \<open>Names for the seven operators and for the shapes of nodes the examples build.\<close>

abbreviation op_plus :: Operator where "op_plus \<equiv> new_Operator 0 ''+'' True Add"
abbreviation op_minus :: Operator where "op_minus \<equiv> new_Operator 0 ''-'' True Sub"
abbreviation op_times :: Operator where "op_times \<equiv> new_Operator 1 ''*'' True Mul"
abbreviation op_divide :: Operator where "op_divide \<equiv> new_Operator 1 ''/'' True Div"
abbreviation op_modulo :: Operator where "op_modulo \<equiv> new_Operator 1 ''%'' True Mod"
abbreviation op_power :: Operator where "op_power \<equiv> new_Operator 2 ''**'' False MathPow"
abbreviation op_negate :: Operator where "op_negate \<equiv> new_Operator 3 ''~'' False Negate"

abbreviation leaf :: "real \<Rightarrow> ExprNode" where
  "leaf v \<equiv> ExprNode (NumberToken v) None"

abbreviation binary :: "Operator \<Rightarrow> ExprNode \<Rightarrow> ExprNode \<Rightarrow> ExprNode" where
  "binary op a b \<equiv> ExprNode (OperatorToken op) (Some [a, b])"

lemma new_Operator_sel [simp]:
  "symbol (new_Operator p s l f) = s"
  "precedence (new_Operator p s l f) = p"
  "isLeftAssociative (new_Operator p s l f) = l"
  "func (new_Operator p s l f) = f"
  "length_op (new_Operator p s l f) = function_length f"
  by (simp_all add: new_Operator_def)

text \<open>
  The seven registrations succeed. They leave two entries, the longer symbols first: one
  for \<open>**\<close>, and one for the six symbols of one character.
\<close>

lemma register_all_created:
  "register_all [] created_operators =
     Inr [\<lparr>symbolLength = 2, opMap = [''**'' \<mapsto> op_power]\<rparr>,
          \<lparr>symbolLength = 1, opMap =
             [''+'' \<mapsto> op_plus, ''-'' \<mapsto> op_minus, ''*'' \<mapsto> op_times,
              ''/'' \<mapsto> op_divide, ''%'' \<mapsto> op_modulo, ''~'' \<mapsto> op_negate]\<rparr>]"
  by (simp add: created_operators_def register_def find_entry_def
      sort_descending_def new_Operator_def Let_def)

lemma dictionary_eq:
  "dictionary =
     [\<lparr>symbolLength = 2, opMap = [''**'' \<mapsto> op_power]\<rparr>,
      \<lparr>symbolLength = 1, opMap =
         [''+'' \<mapsto> op_plus, ''-'' \<mapsto> op_minus, ''*'' \<mapsto> op_times,
          ''/'' \<mapsto> op_divide, ''%'' \<mapsto> op_modulo, ''~'' \<mapsto> op_negate]\<rparr>]"
  by (simp add: dictionary_def register_all_created)

lemmas readToken_eval =
  readToken_def readNumber_def readNumber_loop.simps readFunction_loop.simps charCodeAt_def
  substr_def toNumber_def digits_value_def Operator_parse_def dictionary_eq substring_def
  charAt_def punctuation_Token_def readFunction_def isAlphabetic_def isAlphaNumeric_def
  FunctionMap_def Let_def

lemmas tokenize_eval = tokenize_def tokenize_loop.simps isWhitespace_def readToken_eval

lemmas create_eval = create_def popOperator_def peek_def Let_def

lemmas run_eval = evaluate_create_tokenize_def tokenize_eval create_eval

section \<open>Lemmas about the tokenizer\<close>

lemma readNumber_loop_progress:
  "readNumber_loop expr i decimalMark = (j, d) \<Longrightarrow> i \<le> j \<and> (d \<noteq> decimalMark \<longrightarrow> i < j)"
proof (induction expr i decimalMark rule: readNumber_loop.induct)
  case (1 expr i decimalMark)
  note unfold = readNumber_loop.simps[of expr i decimalMark]
  show ?case
  proof (cases "i < length expr")
    case False
    with "1.prems" unfold show ?thesis by simp
  next
    case True
    note lt = True
    show ?thesis
    proof (cases "charCodeAt expr i = Some (of_char CHR ''.'')")
      case True
      note dot = True
      show ?thesis
      proof (cases "decimalMark = 1")
        case True
        with lt dot "1.prems" unfold show ?thesis by simp
      next
        case False
        with lt dot "1.prems" unfold have "readNumber_loop expr (i + 1) 1 = (j, d)" by simp
        from "1.IH"(1)[OF lt dot False this] show ?thesis by auto
      qed
    next
      case False
      note nodot = False
      show ?thesis
      proof (cases "case charCodeAt expr i of None \<Rightarrow> False
                  | Some charCode \<Rightarrow> charCode < of_char CHR ''0'' \<or> charCode > of_char CHR ''9''")
        case True
        with lt nodot "1.prems" unfold show ?thesis by simp
      next
        case False
        with lt nodot "1.prems" unfold have "readNumber_loop expr (i + 1) decimalMark = (j, d)" by simp
        from "1.IH"(2)[OF lt nodot False this] show ?thesis by auto
      qed
    qed
  qed
qed

lemma readNumber_charsRead:
  assumes "readNumber expr index = Some info"
  shows "1 \<le> charsRead info"
proof -
  obtain j d where l: "readNumber_loop expr index 0 = (j, d)" by (cases "readNumber_loop expr index 0")
  from readNumber_loop_progress[OF l] have p: "index \<le> j" "d \<noteq> 0 \<longrightarrow> index < j" by auto
  from assms l have "int (j - index) - int d \<noteq> 0" "charsRead info = j - index"
    by (auto simp: readNumber_def Let_def split: if_splits)
  with p show ?thesis by (cases "d = 0") auto
qed

lemma Operator_parse_registered:
  "Operator_parse expr index = Some op \<Longrightarrow> op \<in> set created_operators"
  by (auto simp: Operator_parse_def dictionary_eq created_operators_def Let_def
           split: if_splits option.splits)

lemma created_operators_symbol:
  "op \<in> set created_operators \<Longrightarrow> 1 \<le> length (symbol op)"
  by (auto simp: created_operators_def)

lemma readFunction_loop_ge: "i \<le> readFunction_loop expr i"
proof (induction expr i rule: readFunction_loop.induct)
  case (1 expr i)
  show ?case
  proof (cases "i < length expr \<and> isAlphaNumeric expr i")
    case True
    with "1.IH" have "i + 1 \<le> readFunction_loop expr (i + 1)" by simp
    with True show ?thesis by (subst readFunction_loop.simps) simp
  next
    case False
    then show ?thesis by (subst readFunction_loop.simps) auto
  qed
qed

lemma readFunction_charsRead:
  "readFunction expr index = Some info \<Longrightarrow> 1 \<le> charsRead info"
  using readFunction_loop_ge[of "index + 1" expr]
  by (auto simp: readFunction_def Let_def split: if_splits option.splits)

lemma readToken_charsRead:
  assumes "readToken expr index = Some info"
  shows "1 \<le> charsRead info"
  using assms
  by (auto simp: readToken_def split: option.splits
      dest: readNumber_charsRead readFunction_charsRead Operator_parse_registered[THEN created_operators_symbol])

lemma tokenize_loop_returns: "\<exists>r. tokenize_loop expr i tokenList = Some r"
proof (induction "length expr - i" arbitrary: i tokenList rule: less_induct)
  case less
  show ?case
  proof (cases "i < length expr")
    case False
    then show ?thesis by (subst tokenize_loop.simps) simp
  next
    case True
    note lt = True
    show ?thesis
    proof (cases "isWhitespace (charCodeAt expr i)")
      case True
      from lt have "length expr - (i + 1) < length expr - i" by simp
      from less[OF this] obtain r where "tokenize_loop expr (i + 1) tokenList = Some r" by blast
      with lt True show ?thesis by (subst tokenize_loop.simps) simp
    next
      case False
      show ?thesis
      proof (cases "readToken expr i")
        case None
        with lt False show ?thesis by (subst tokenize_loop.simps) simp
      next
        case (Some info)
        from readToken_charsRead[OF Some] lt
        have "length expr - (i + charsRead info) < length expr - i" by simp
        from less[OF this] obtain r
          where "tokenize_loop expr (i + charsRead info) (tokenList @ [token info]) = Some r"
          by blast
        with lt False Some show ?thesis by (subst tokenize_loop.simps) simp
      qed
    qed
  qed
qed

section \<open>Lemmas about the operator registry\<close>

lemma substring_in_range:
  "i \<le> j \<Longrightarrow> j \<le> length s \<Longrightarrow> substring s i j = take (j - i) (drop i s)"
  by (simp add: substring_def Let_def min_def max_def)

lemma entry_okD:
  "entry_ok e \<Longrightarrow> opMap e s = Some op \<Longrightarrow> symbol op = s \<and> length s = symbolLength e"
  unfolding entry_ok_def by blast

lemma registered_Cons:
  "registered (e # dic) op \<longleftrightarrow> opMap e (symbol op) = Some op \<or> registered dic op"
  by (auto simp: registered_def)

lemma Operator_parse_loop_longest:
  assumes "sorted_wrt (\<lambda>a b. symbolLength a > symbolLength b) dic"
    and "\<forall>e \<in> set dic. entry_ok e"
  shows "longest_match dic expr i (Operator_parse_loop dic expr i)"
  using assms
proof (induction dic)
  case Nil
  show ?case by (simp add: longest_match_def registered_def)
next
  case (Cons e dic)
  then have IH: "longest_match dic expr i (Operator_parse_loop dic expr i)"
    and ok: "entry_ok e" and oks: "\<forall>e' \<in> set dic. entry_ok e'"
    and longer: "\<forall>e' \<in> set dic. symbolLength e' < symbolLength e"
    by auto
  have in_e: "\<And>op'. opMap e (symbol op') = Some op' \<Longrightarrow> length (symbol op') = symbolLength e"
    using entry_okD[OF ok] by blast
  have in_rest: "length (symbol op') < symbolLength e" if "registered dic op'" for op'
  proof -
    from that obtain e' where e': "e' \<in> set dic" "opMap e' (symbol op') = Some op'"
      unfolding registered_def by blast
    from e'(1) oks have "entry_ok e'" by blast
    from entry_okD[OF this e'(2)] have "length (symbol op') = symbolLength e'" by blast
    moreover from e'(1) longer have "symbolLength e' < symbolLength e" by blast
    ultimately show ?thesis by simp
  qed
  show ?case
  proof (cases "i + symbolLength e \<le> length expr
                \<and> opMap e (take (symbolLength e) (drop i expr)) \<noteq> None")
    case True
    then obtain op where op: "opMap e (take (symbolLength e) (drop i expr)) = Some op"
      and fits: "i + symbolLength e \<le> length expr" by auto
    from fits op have res: "Operator_parse_loop (e # dic) expr i = Some op"
      by (simp add: Let_def substring_in_range)
    from entry_okD[OF ok op] have sym: "symbol op = take (symbolLength e) (drop i expr)"
      by blast
    from in_e[of op] op sym have len: "length (symbol op) = symbolLength e"
      by simp
    have reg: "registered (e # dic) op" using op sym by (simp add: registered_Cons)
    have at: "symbol_at op expr i" using fits sym len by (simp add: symbol_at_def)
    have best: "length (symbol op') < length (symbol op) \<or> op' = op"
      if r: "registered (e # dic) op'" and a: "symbol_at op' expr i" for op'
    proof (cases "opMap e (symbol op') = Some op'")
      case True
      from a have "take (length (symbol op')) (drop i expr) = symbol op'"
        unfolding symbol_at_def by blast
      with in_e[OF True] sym have "symbol op' = symbol op" by metis
      with True op sym have "Some op' = Some op" by metis
      then show ?thesis by blast
    next
      case False
      with r have "registered dic op'" by (simp add: registered_Cons)
      from in_rest[OF this] len show ?thesis by simp
    qed
    show ?thesis unfolding res longest_match_def using reg at best by auto
  next
    case False
    then have res: "Operator_parse_loop (e # dic) expr i = Operator_parse_loop dic expr i"
      by (auto simp: Let_def substring_in_range)
    have none_e: "\<not> symbol_at op' expr i" if m: "opMap e (symbol op') = Some op'" for op'
    proof
      assume a: "symbol_at op' expr i"
      from a have "i + length (symbol op') \<le> length expr"
        and "take (length (symbol op')) (drop i expr) = symbol op'"
        unfolding symbol_at_def by blast+
      with in_e[OF m] have "i + symbolLength e \<le> length expr"
        and "opMap e (take (symbolLength e) (drop i expr)) = opMap e (symbol op')"
        by metis+
      with m False show False by (metis option.distinct(1))
    qed
    show ?thesis
    proof (cases "Operator_parse_loop dic expr i")
      case None
      with IH none_e show ?thesis
        unfolding res by (auto simp: longest_match_def registered_Cons)
    next
      case (Some op)
      with IH none_e show ?thesis
        unfolding res by (auto simp: longest_match_def registered_Cons)
    qed
  qed
qed

lemma dictionary_sorted: "sorted_wrt (\<lambda>a b. symbolLength a > symbolLength b) dictionary"
  by (simp add: dictionary_eq)

lemma dictionary_entries_ok: "\<forall>e \<in> set dictionary. entry_ok e"
  by (auto simp: dictionary_eq entry_ok_def split: if_splits)

lemma registered_dictionary: "registered dictionary op \<longleftrightarrow> op \<in> set created_operators"
  by (auto simp: registered_def dictionary_eq created_operators_def split: if_splits)

section \<open>Lemmas about the tree builder\<close>

text \<open>A reduction keeps the invariant of the trees on the expression stack.\<close>

lemma popOperator_keeps_arity:
  assumes "list_all arity_invariant exprStack"
    and "popOperator opStack exprStack = Inr (opStack', exprStack')"
  shows "list_all arity_invariant exprStack'"
proof -
  have sub: "list_all arity_invariant (take n exprStack)"
    "list_all arity_invariant (drop n exprStack)" for n
    using assms(1) by (auto simp: list_all_iff dest: in_set_takeD in_set_dropD)
  from assms(2) sub show ?thesis
    by (cases opStack; cases "hd opStack")
       (auto simp: popOperator_def Let_def split: if_splits)
qed

lemma tokens_loop_numbers:
  "tokens_loop (map NumberToken vs) opStack exprStack =
     Inr (opStack, rev (map leaf vs) @ exprStack)"
  by (induction vs arbitrary: exprStack) simp_all

lemma tokens_loop_append:
  "tokens_loop (xs @ ys) opStack exprStack =
     (case tokens_loop xs opStack exprStack of
        Inl e \<Rightarrow> Inl e
      | Inr (opStack', exprStack') \<Rightarrow> tokens_loop ys opStack' exprStack')"
  by (induction xs arbitrary: opStack exprStack) (auto split: sum.splits)

lemma rightParenthesis_runs_out:
  "pops n opStack exprStack = Some ([], exprStack') \<Longrightarrow>
     rightParenthesis_loop opStack exprStack = Inl MismatchedRightParenthesis"
proof (induction n arbitrary: opStack exprStack)
  case 0
  then show ?case by simp
next
  case (Suc n)
  then show ?case
    by (cases opStack) (auto split: if_splits sum.splits)
qed

lemma remaining_finds_left:
  "pops n opStack exprStack = Some (LeftParenthesisToken # rest, exprStack') \<Longrightarrow>
     remaining_loop opStack exprStack = Inl MismatchedLeftParenthesis"
proof (induction n arbitrary: opStack exprStack)
  case 0
  then show ?case by simp
next
  case (Suc n)
  then show ?case
    by (cases opStack) (auto split: if_splits sum.splits)
qed

lemma type_LeftParenthesis: "type t = LeftParenthesis \<longleftrightarrow> t = LeftParenthesisToken"
  by (cases t) simp_all

lemma popOperator_Cons:
  "popOperator (t # opStack) exprStack = Inr (opStack', exprStack') \<Longrightarrow> opStack' = opStack"
  by (auto simp: popOperator_def Let_def split: if_splits)

lemma remaining_fails:
  "LeftParenthesisToken \<in> set opStack \<Longrightarrow> \<exists>e. remaining_loop opStack exprStack = Inl e"
proof (induction opStack arbitrary: exprStack)
  case Nil
  then show ?case by simp
next
  case (Cons t opStack)
  show ?case
  proof (cases "t = LeftParenthesisToken")
    case True
    then show ?thesis by simp
  next
    case False
    with Cons.prems have mem: "LeftParenthesisToken \<in> set opStack" by simp
    show ?thesis
    proof (cases "popOperator (t # opStack) exprStack")
      case (Inl e)
      with False show ?thesis by (simp add: type_LeftParenthesis)
    next
      case (Inr p)
      obtain opStack' exprStack' where p: "p = (opStack', exprStack')" by (cases p)
      with Inr popOperator_Cons have "opStack' = opStack" by blast
      with Inr p False Cons.IH[OF mem, of exprStack'] show ?thesis
        by (simp add: type_LeftParenthesis)
    qed
  qed
qed

lemma rightParenthesis_fails:
  "LeftParenthesisToken \<notin> set opStack \<Longrightarrow> \<exists>e. rightParenthesis_loop opStack exprStack = Inl e"
proof (induction opStack arbitrary: exprStack)
  case Nil
  then show ?case by simp
next
  case (Cons t opStack)
  then have neq: "t \<noteq> LeftParenthesisToken" and mem: "LeftParenthesisToken \<notin> set opStack"
    by auto
  show ?case
  proof (cases "popOperator (t # opStack) exprStack")
    case (Inl e)
    with neq show ?thesis by (simp add: type_LeftParenthesis)
  next
    case (Inr p)
    obtain opStack' exprStack' where p: "p = (opStack', exprStack')" by (cases p)
    with Inr popOperator_Cons have "opStack' = opStack" by blast
    with Inr p neq Cons.IH[OF mem, of exprStack'] show ?thesis
      by (simp add: type_LeftParenthesis)
  qed
qed

text \<open>
  What the loops over the operator stack do when a reduction fails, and which tokens and
  errors they can meet.
\<close>

lemma popOperator_subset:
  "popOperator opStack exprStack = Inr (opStack', exprStack') \<Longrightarrow> set opStack' \<subseteq> set opStack"
  by (auto simp: popOperator_def Let_def split: list.splits if_splits)

lemma popOperator_error:
  "popOperator (t # rest) exprStack = Inl e \<Longrightarrow> pending t \<Longrightarrow> type t \<noteq> LeftParenthesis \<Longrightarrow>
     e = NotEnoughExpressions"
  by (auto simp: popOperator_def pending_def Let_def split: if_splits)

lemma rightParenthesis_loop_subset:
  "rightParenthesis_loop opStack exprStack = Inr (opStack', exprStack') \<Longrightarrow>
     set opStack' \<subseteq> set opStack"
proof (induction opStack exprStack rule: rightParenthesis_loop.induct)
  case (1 exprStack)
  then show ?case by simp
next
  case (2 topOp opStack exprStack)
  show ?case
  proof (cases "type topOp = LeftParenthesis")
    case True
    with "2.prems"
    have "popOperator opStack exprStack = Inr (opStack', exprStack') \<or> opStack' = opStack"
      by (auto simp: peek_def split: list.splits if_splits)
    with popOperator_subset[of opStack exprStack opStack' exprStack'] show ?thesis
      by auto
  next
    case False
    with "2.prems" obtain ops1 es1
      where p: "popOperator (topOp # opStack) exprStack = Inr (ops1, es1)"
        and r: "rightParenthesis_loop ops1 es1 = Inr (opStack', exprStack')"
      by (auto split: sum.splits)
    from "2.IH"[OF False p refl r] popOperator_subset[OF p] show ?thesis by blast
  qed
qed

lemma operator_loop_subset:
  "operator_loop op opStack exprStack = Inr (opStack', exprStack') \<Longrightarrow>
     set opStack' \<subseteq> set opStack"
proof (induction op opStack exprStack rule: operator_loop.induct)
  case (1 op exprStack)
  then show ?case by simp
next
  case (2 op nextOp opStack exprStack)
  show ?case
  proof (cases "operator_loop op (nextOp # opStack) exprStack = Inr (nextOp # opStack, exprStack)")
    case True
    with "2.prems" show ?thesis by simp
  next
    case False
    then obtain v where v: "nextOp = OperatorToken v"
      by (cases nextOp) auto
    from False v have c1: "\<not> (isLeftAssociative op \<and> precedence op > precedence v)"
      and c2: "\<not> (\<not> isLeftAssociative op \<and> precedence op \<ge> precedence v)"
      by (auto split: if_splits)
    from "2.prems" v c1 c2 obtain ops1 es1
      where p: "popOperator (nextOp # opStack) exprStack = Inr (ops1, es1)"
        and r: "operator_loop op ops1 es1 = Inr (opStack', exprStack')"
      by (auto split: sum.splits if_splits)
    from "2.IH"[OF v c1 c2 p refl r] popOperator_subset[OF p] show ?thesis by blast
  qed
qed

lemma argumentSeparator_loop_subset:
  "argumentSeparator_loop opStack exprStack = Inr (opStack', exprStack') \<Longrightarrow>
     set opStack' \<subseteq> set opStack"
  by (induction opStack arbitrary: exprStack) (auto split: if_splits)

lemma process_token_pending:
  assumes "process_token tok opStack exprStack = Inr (opStack', exprStack')"
    and "\<forall>t \<in> set opStack. pending t"
  shows "\<forall>t \<in> set opStack'. pending t"
proof (cases tok)
  case (NumberToken v)
  with assms show ?thesis by auto
next
  case (OperatorToken op)
  with assms(1) obtain ops1 where "operator_loop op opStack exprStack = Inr (ops1, exprStack')"
    and "opStack' = OperatorToken op # ops1"
    by (auto split: sum.splits)
  with operator_loop_subset assms(2) show ?thesis
    by (fastforce simp: pending_def)
next
  case LeftParenthesisToken
  with assms show ?thesis by (auto simp: pending_def)
next
  case RightParenthesisToken
  with assms rightParenthesis_loop_subset show ?thesis by fastforce
next
  case ArgumentSeparatorToken
  with assms argumentSeparator_loop_subset show ?thesis by fastforce
next
  case (FunctionToken f)
  with assms show ?thesis by (auto simp: pending_def)
qed

lemma tokens_loop_pending:
  "tokens_loop tokens opStack exprStack = Inr (opStack', exprStack') \<Longrightarrow>
     \<forall>t \<in> set opStack. pending t \<Longrightarrow> \<forall>t \<in> set opStack'. pending t"
proof (induction tokens arbitrary: opStack exprStack)
  case Nil
  then show ?case by simp
next
  case (Cons tok tokens)
  from Cons.prems(1) obtain ops1 es1
    where p: "process_token tok opStack exprStack = Inr (ops1, es1)"
      and r: "tokens_loop tokens ops1 es1 = Inr (opStack', exprStack')"
    by (auto split: sum.splits)
  from process_token_pending[OF p Cons.prems(2)] have "\<forall>t \<in> set ops1. pending t" .
  from Cons.IH[OF r this] show ?case .
qed

lemma rightParenthesis_reduction_fails:
  "pops n opStack exprStack = Some (t # rest, exprStack') \<Longrightarrow> type t \<noteq> LeftParenthesis \<Longrightarrow>
     popOperator (t # rest) exprStack' = Inl e \<Longrightarrow>
     rightParenthesis_loop opStack exprStack = Inl e"
proof (induction n arbitrary: opStack exprStack)
  case 0
  then show ?case by simp
next
  case (Suc n)
  then show ?case
    by (cases opStack) (auto split: if_splits sum.splits)
qed

lemma remaining_reduction_fails:
  "pops n opStack exprStack = Some (t # rest, exprStack') \<Longrightarrow> type t \<noteq> LeftParenthesis \<Longrightarrow>
     popOperator (t # rest) exprStack' = Inl e \<Longrightarrow>
     remaining_loop opStack exprStack = Inl e"
proof (induction n arbitrary: opStack exprStack)
  case 0
  then show ?case by simp
next
  case (Suc n)
  then show ?case
    by (cases opStack) (auto split: if_splits sum.splits)
qed

lemma pops_Suc:
  "type t \<noteq> LeftParenthesis \<Longrightarrow> popOperator (t # opStack) exprStack = Inr (ops1, es1) \<Longrightarrow>
     pops (Suc n) (t # opStack) exprStack = pops n ops1 es1"
  by simp

lemma pops_without_left:
  "LeftParenthesisToken \<notin> set opStack \<Longrightarrow>
     (\<exists>n exprStack'. pops n opStack exprStack = Some ([], exprStack'))
     \<or> (\<exists>n t rest exprStack' e. pops n opStack exprStack = Some (t # rest, exprStack')
           \<and> type t \<noteq> LeftParenthesis \<and> popOperator (t # rest) exprStack' = Inl e)"
proof (induction opStack arbitrary: exprStack)
  case Nil
  have "pops 0 [] exprStack = Some ([], exprStack)" by simp
  then show ?case by blast
next
  case (Cons t opStack)
  then have neq: "type t \<noteq> LeftParenthesis" and mem: "LeftParenthesisToken \<notin> set opStack"
    by (auto simp: type_LeftParenthesis)
  show ?case
  proof (cases "popOperator (t # opStack) exprStack")
    case (Inl e)
    have "pops 0 (t # opStack) exprStack = Some (t # opStack, exprStack)" by simp
    with neq Inl show ?thesis by blast
  next
    case (Inr p)
    obtain ops1 es1 where p: "p = (ops1, es1)" by (cases p)
    with Inr have pop: "popOperator (t # opStack) exprStack = Inr (ops1, es1)" by simp
    from popOperator_Cons[OF pop] have ops1: "ops1 = opStack" .
    note step = pops_Suc[OF neq pop]
    from Cons.IH[OF mem, of es1] show ?thesis
    proof
      assume "\<exists>n exprStack'. pops n opStack es1 = Some ([], exprStack')"
      then obtain n exprStack' where "pops n opStack es1 = Some ([], exprStack')" by blast
      with step[of n] ops1 have "pops (Suc n) (t # opStack) exprStack = Some ([], exprStack')"
        by simp
      then show ?thesis by blast
    next
      assume "\<exists>n t' rest exprStack' e. pops n opStack es1 = Some (t' # rest, exprStack')
           \<and> type t' \<noteq> LeftParenthesis \<and> popOperator (t' # rest) exprStack' = Inl e"
      then obtain n t' rest exprStack' e
        where q: "pops n opStack es1 = Some (t' # rest, exprStack')"
          "type t' \<noteq> LeftParenthesis" "popOperator (t' # rest) exprStack' = Inl e"
        by blast
      from q(1) step[of n] ops1
      have "pops (Suc n) (t # opStack) exprStack = Some (t' # rest, exprStack')" by simp
      with q(2,3) show ?thesis by blast
    qed
  qed
qed

lemma pops_with_left:
  "LeftParenthesisToken \<in> set opStack \<Longrightarrow>
     (\<exists>n rest exprStack'. pops n opStack exprStack = Some (LeftParenthesisToken # rest, exprStack'))
     \<or> (\<exists>n t rest exprStack' e. pops n opStack exprStack = Some (t # rest, exprStack')
           \<and> type t \<noteq> LeftParenthesis \<and> popOperator (t # rest) exprStack' = Inl e)"
proof (induction opStack arbitrary: exprStack)
  case Nil
  then show ?case by simp
next
  case (Cons t opStack)
  show ?case
  proof (cases "t = LeftParenthesisToken")
    case True
    then have "pops 0 (t # opStack) exprStack = Some (LeftParenthesisToken # opStack, exprStack)"
      by simp
    then show ?thesis by blast
  next
    case False
    then have neq: "type t \<noteq> LeftParenthesis" by (simp add: type_LeftParenthesis)
    from False Cons.prems have mem: "LeftParenthesisToken \<in> set opStack" by simp
    show ?thesis
    proof (cases "popOperator (t # opStack) exprStack")
      case (Inl e)
      have "pops 0 (t # opStack) exprStack = Some (t # opStack, exprStack)" by simp
      with neq Inl show ?thesis by blast
    next
      case (Inr p)
      obtain ops1 es1 where p: "p = (ops1, es1)" by (cases p)
      with Inr have pop: "popOperator (t # opStack) exprStack = Inr (ops1, es1)" by simp
      from popOperator_Cons[OF pop] have ops1: "ops1 = opStack" .
      note step = pops_Suc[OF neq pop]
      from Cons.IH[OF mem, of es1] show ?thesis
      proof
        assume "\<exists>n rest exprStack'.
                  pops n opStack es1 = Some (LeftParenthesisToken # rest, exprStack')"
        then obtain n rest exprStack'
          where "pops n opStack es1 = Some (LeftParenthesisToken # rest, exprStack')" by blast
        with step[of n] ops1
        have "pops (Suc n) (t # opStack) exprStack = Some (LeftParenthesisToken # rest, exprStack')"
          by simp
        then show ?thesis by blast
      next
        assume "\<exists>n t' rest exprStack' e. pops n opStack es1 = Some (t' # rest, exprStack')
             \<and> type t' \<noteq> LeftParenthesis \<and> popOperator (t' # rest) exprStack' = Inl e"
        then obtain n t' rest exprStack' e
          where q: "pops n opStack es1 = Some (t' # rest, exprStack')"
            "type t' \<noteq> LeftParenthesis" "popOperator (t' # rest) exprStack' = Inl e"
          by blast
        from q(1) step[of n] ops1
        have "pops (Suc n) (t # opStack) exprStack = Some (t' # rest, exprStack')" by simp
        with q(2,3) show ?thesis by blast
      qed
    qed
  qed
qed

lemma pops_subset:
  "pops n opStack exprStack = Some (opStack', exprStack') \<Longrightarrow> set opStack' \<subseteq> set opStack"
proof (induction n arbitrary: opStack exprStack)
  case 0
  then show ?case by simp
next
  case (Suc n)
  show ?case
  proof (cases opStack)
    case Nil
    with Suc.prems show ?thesis by simp
  next
    case (Cons t ops)
    with Suc.prems obtain ops1 es1
      where p: "popOperator (t # ops) exprStack = Inr (ops1, es1)"
        and r: "pops n ops1 es1 = Some (opStack', exprStack')"
      by (auto split: if_splits sum.splits)
    from Suc.IH[OF r] popOperator_subset[OF p] Cons show ?thesis by blast
  qed
qed

lemma create_right:
  "tokens_loop before [] [] = Inr (opStack, exprStack) \<Longrightarrow>
     rightParenthesis_loop opStack exprStack = Inl e \<Longrightarrow>
     create (before @ RightParenthesisToken # after) = Inl e"
  by (simp add: create_def tokens_loop_append)

lemma create_end:
  "tokens_loop tokens [] [] = Inr (opStack, exprStack) \<Longrightarrow>
     remaining_loop opStack exprStack = Inl e \<Longrightarrow>
     create tokens = Inl e"
  by (simp add: create_def)

lemma tokens_loop_stack_pending:
  "tokens_loop tokens [] [] = Inr (opStack, exprStack) \<Longrightarrow> \<forall>t \<in> set opStack. pending t"
  using tokens_loop_pending[of tokens "[]" "[]" opStack exprStack] by simp

lemma right_errors:
  assumes t: "tokens_loop before [] [] = Inr (opStack, exprStack)"
    and no: "LeftParenthesisToken \<notin> set opStack"
  shows "create (before @ RightParenthesisToken # after) = Inl MismatchedRightParenthesis
         \<or> create (before @ RightParenthesisToken # after) = Inl NotEnoughExpressions"
  using pops_without_left[OF no, of exprStack]
proof
  assume "\<exists>n exprStack'. pops n opStack exprStack = Some ([], exprStack')"
  then obtain n exprStack' where "pops n opStack exprStack = Some ([], exprStack')" by blast
  from create_right[OF t rightParenthesis_runs_out[OF this]] show ?thesis by blast
next
  assume "\<exists>n t rest exprStack' e. pops n opStack exprStack = Some (t # rest, exprStack')
           \<and> type t \<noteq> LeftParenthesis \<and> popOperator (t # rest) exprStack' = Inl e"
  then obtain n t rest exprStack' e
    where q: "pops n opStack exprStack = Some (t # rest, exprStack')"
      "type t \<noteq> LeftParenthesis" "popOperator (t # rest) exprStack' = Inl e"
    by blast
  from pops_subset[OF q(1)] tokens_loop_stack_pending[OF t] have "pending t" by auto
  from popOperator_error[OF q(3) this q(2)] have "e = NotEnoughExpressions" .
  with create_right[OF t rightParenthesis_reduction_fails[OF q]] show ?thesis by blast
qed

lemma left_errors:
  assumes t: "tokens_loop tokens [] [] = Inr (opStack, exprStack)"
    and mem: "LeftParenthesisToken \<in> set opStack"
  shows "create tokens = Inl MismatchedLeftParenthesis
         \<or> create tokens = Inl NotEnoughExpressions"
  using pops_with_left[OF mem, of exprStack]
proof
  assume "\<exists>n rest exprStack'.
            pops n opStack exprStack = Some (LeftParenthesisToken # rest, exprStack')"
  then obtain n rest exprStack'
    where "pops n opStack exprStack = Some (LeftParenthesisToken # rest, exprStack')" by blast
  from create_end[OF t remaining_finds_left[OF this]] show ?thesis by blast
next
  assume "\<exists>n t rest exprStack' e. pops n opStack exprStack = Some (t # rest, exprStack')
           \<and> type t \<noteq> LeftParenthesis \<and> popOperator (t # rest) exprStack' = Inl e"
  then obtain n t rest exprStack' e
    where q: "pops n opStack exprStack = Some (t # rest, exprStack')"
      "type t \<noteq> LeftParenthesis" "popOperator (t # rest) exprStack' = Inl e"
    by blast
  from pops_subset[OF q(1)] tokens_loop_stack_pending[OF t] have "pending t" by auto
  from popOperator_error[OF q(3) this q(2)] have "e = NotEnoughExpressions" .
  with create_end[OF t remaining_reduction_fails[OF q]] show ?thesis by blast
qed

section \<open>Properties\<close>

text \<open>
  C1. Precedence and parentheses. The run on \<open>2+3*4\<close> returns \<open>14\<close>. The run on \<open>(2+3)*4\<close>
  does not return \<open>20\<close>: when the right parenthesis is processed, the matching left
  parenthesis is the only token left on the operator stack; after it is popped, \<open>peek\<close>
  yields \<open>undefined\<close> on the empty stack and the test of its \<open>type\<close> raises a \<open>TypeError\<close>.
  The same happens for every right parenthesis whose left parenthesis lies at the bottom of
  the operator stack.
\<close>

theorem precedence_examples:
  "evaluate_create_tokenize ''2+3*4'' = Some (Inr 14)
   \<and> tokenize ''(2+3)*4'' =
       Some (Inr [LeftParenthesisToken, NumberToken 2, OperatorToken op_plus, NumberToken 3,
                  RightParenthesisToken, OperatorToken op_times, NumberToken 4])
   \<and> create [LeftParenthesisToken, NumberToken 2, OperatorToken op_plus, NumberToken 3,
              RightParenthesisToken, OperatorToken op_times, NumberToken 4] = Inl TypeError
   \<and> evaluate_create_tokenize ''(2+3)*4'' = Some (Inl TypeError)
   \<and> process_token RightParenthesisToken [LeftParenthesisToken] exprStack = Inl TypeError"
proof -
  have a: "evaluate_create_tokenize ''2+3*4'' = Some (Inr 14)"
    by (simp add: run_eval)
  have t: "tokenize ''(2+3)*4'' =
       Some (Inr [LeftParenthesisToken, NumberToken 2, OperatorToken op_plus, NumberToken 3,
                  RightParenthesisToken, OperatorToken op_times, NumberToken 4])"
    by (simp add: tokenize_eval)
  have c: "create [LeftParenthesisToken, NumberToken 2, OperatorToken op_plus, NumberToken 3,
              RightParenthesisToken, OperatorToken op_times, NumberToken 4] = Inl TypeError"
    by (simp add: create_eval)
  have e: "evaluate_create_tokenize ''(2+3)*4'' = Some (Inl TypeError)"
    by (simp add: evaluate_create_tokenize_def t c)
  have p: "process_token RightParenthesisToken [LeftParenthesisToken] exprStack = Inl TypeError"
    by (simp add: peek_def)
  from a t c e p show ?thesis by blast
qed

text \<open>
  C2. The argument separator. Case 5 of \<open>AST.create\<close> does not reduce the operators it
  pops: each is pushed on the expression stack as a node without children, and its operands
  stay where they are. On an operator stack without a left parenthesis the loop reads the
  \<open>type\<close> of \<open>undefined\<close>, so \<open>1,2\<close> ends with a \<open>TypeError\<close>, not with an error of the tree
  builder; and a call such as \<open>min(4-1,2)\<close> builds a tree that \<open>evaluate\<close> cannot evaluate.
\<close>

theorem argumentSeparator_examples:
  "tokenize ''1,2'' = Some (Inr [NumberToken 1, ArgumentSeparatorToken, NumberToken 2])
   \<and> create [NumberToken 1, ArgumentSeparatorToken, NumberToken 2] = Inl TypeError
   \<and> process_token ArgumentSeparatorToken [] exprStack = Inl TypeError
   \<and> process_token ArgumentSeparatorToken
         [OperatorToken op_plus, LeftParenthesisToken, FunctionToken Fmax] [leaf 2, leaf 1] =
       Inr ([LeftParenthesisToken, FunctionToken Fmax],
            [ExprNode (OperatorToken op_plus) None, leaf 2, leaf 1])
   \<and> evaluate_create_tokenize ''min(4-1,2)'' = Some (Inl TypeError)"
proof -
  have t: "tokenize ''1,2'' = Some (Inr [NumberToken 1, ArgumentSeparatorToken, NumberToken 2])"
    by (simp add: tokenize_eval)
  have c: "create [NumberToken 1, ArgumentSeparatorToken, NumberToken 2] = Inl TypeError"
    by (simp add: create_eval)
  have p: "process_token ArgumentSeparatorToken [] exprStack = Inl TypeError"
    by simp
  have q: "process_token ArgumentSeparatorToken
         [OperatorToken op_plus, LeftParenthesisToken, FunctionToken Fmax] [leaf 2, leaf 1] =
       Inr ([LeftParenthesisToken, FunctionToken Fmax],
            [ExprNode (OperatorToken op_plus) None, leaf 2, leaf 1])"
    by simp
  have e: "evaluate_create_tokenize ''min(4-1,2)'' = Some (Inl TypeError)"
    by (simp add: run_eval)
  from t c p q e show ?thesis by blast
qed

text \<open>
  C3, as the code has it. \<open>AST.create\<close> has no error for the size of the expression stack.
  On the empty token sequence it returns \<open>undefined\<close>; whenever the two loops end, it returns
  the node on top of the expression stack, however many nodes lie below; so a sequence of
  one or more number tokens returns the leaf of the last number.
\<close>

theorem create_returns_top:
  "create [] = Inr None
   \<and> (\<forall>tokens opStack exprStack opStack' exprStack'.
         tokens_loop tokens [] [] = Inr (opStack, exprStack)
         \<and> remaining_loop opStack exprStack = Inr (opStack', exprStack')
         \<longrightarrow> create tokens = Inr (peek exprStack'))
   \<and> (\<forall>vs. vs \<noteq> [] \<longrightarrow> create (map NumberToken vs) = Inr (Some (leaf (last vs))))"
proof -
  have a: "create [] = Inr None" by (simp add: create_def peek_def)
  have b: "create tokens = Inr (peek exprStack')"
    if "tokens_loop tokens [] [] = Inr (opStack, exprStack)"
      and "remaining_loop opStack exprStack = Inr (opStack', exprStack')"
    for tokens opStack exprStack opStack' exprStack'
    using that by (simp add: create_def)
  have c: "create (map NumberToken vs) = Inr (Some (leaf (last vs)))" if "vs \<noteq> []" for vs
  proof -
    from that obtain us u where vs: "vs = us @ [u]" by (cases vs rule: rev_cases) auto
    have t: "tokens_loop (map NumberToken vs) [] [] = Inr ([], rev (map leaf vs))"
      by (simp add: tokens_loop_numbers)
    have p: "peek (rev (map leaf vs)) = Some (leaf (last vs))"
      by (simp add: peek_def vs)
    show ?thesis unfolding create_def t by (simp add: p)
  qed
  from a b c show ?thesis by blast
qed

text \<open>C3, the amended statement at the numbers \<open>1\<close> and \<open>2\<close>, the tokens of \<open>1 2\<close>.\<close>

theorem create_returns_top_witness:
  "[1, 2] \<noteq> ([] :: real list)
   \<and> create (map NumberToken [1, 2]) = Inr (Some (leaf (last [1, 2])))
   \<and> tokenize ''1 2'' = Some (Inr (map NumberToken [1, 2]))"
proof -
  have "[1, 2] \<noteq> ([] :: real list)" by simp
  moreover from create_returns_top this
  have "create (map NumberToken [1, 2]) = Inr (Some (leaf (last [1, 2])))" by blast
  moreover have "tokenize ''1 2'' = Some (Inr (map NumberToken [1, 2]))"
    by (simp add: tokenize_eval)
  ultimately show ?thesis by blast
qed

text \<open>
  C3 as stated fails: neither the empty token sequence nor a sequence that leaves two
  nodes on the expression stack makes \<open>AST.create\<close> fail.
\<close>

theorem create_without_stack_size_error:
  "create [] = Inr None
   \<and> tokenize ''1 2'' = Some (Inr [NumberToken 1, NumberToken 2])
   \<and> tokens_loop [NumberToken 1, NumberToken 2] [] [] = Inr ([], [leaf 2, leaf 1])
   \<and> create [NumberToken 1, NumberToken 2] = Inr (Some (leaf 2))"
  by (simp add: tokenize_eval create_eval)

text \<open>
  C4. The invariant of the trees does not hold for every tree \<open>AST.create\<close> returns. The
  reductions of \<open>popOperator\<close> keep it, but the argument separator (see C2) pushes operator
  nodes without children: the tree returned for \<open>max(1+2,3)\<close> holds the node of \<open>+\<close> with no
  children at all.
\<close>

theorem arity_invariant_broken:
  "tokenize ''max(1+2,3)'' =
     Some (Inr [FunctionToken Fmax, LeftParenthesisToken, NumberToken 1, OperatorToken op_plus,
                NumberToken 2, ArgumentSeparatorToken, NumberToken 3, RightParenthesisToken])
   \<and> create [FunctionToken Fmax, LeftParenthesisToken, NumberToken 1, OperatorToken op_plus,
              NumberToken 2, ArgumentSeparatorToken, NumberToken 3, RightParenthesisToken] =
       Inr (Some (ExprNode (FunctionToken Fmax)
                    (Some [ExprNode (OperatorToken op_plus) None, leaf 3])))
   \<and> \<not> arity_invariant
         (ExprNode (FunctionToken Fmax) (Some [ExprNode (OperatorToken op_plus) None, leaf 3]))"
proof -
  have t: "tokenize ''max(1+2,3)'' =
     Some (Inr [FunctionToken Fmax, LeftParenthesisToken, NumberToken 1, OperatorToken op_plus,
                NumberToken 2, ArgumentSeparatorToken, NumberToken 3, RightParenthesisToken])"
    by (simp add: tokenize_eval)
  have c: "create [FunctionToken Fmax, LeftParenthesisToken, NumberToken 1, OperatorToken op_plus,
              NumberToken 2, ArgumentSeparatorToken, NumberToken 3, RightParenthesisToken] =
       Inr (Some (ExprNode (FunctionToken Fmax)
                    (Some [ExprNode (OperatorToken op_plus) None, leaf 3])))"
    by (simp add: create_eval)
  have n: "\<not> arity_invariant
         (ExprNode (FunctionToken Fmax) (Some [ExprNode (OperatorToken op_plus) None, leaf 3]))"
    by simp
  from t c n show ?thesis by blast
qed

text \<open>
  C5. The TypeScript tokenizer and the tokenizer of the compiled script are not the same
  function: \<open>readFunction\<close> takes the name with \<open>substr(index, i)\<close> in the one and with
  \<open>substring(index, i)\<close> in the other, and they differ as soon as a function name starts
  after index \<open>0\<close>. On \<open>2*floor(2.7)\<close> the TypeScript tokenizer throws and the script returns
  six tokens.
\<close>

theorem typescript_and_script_differ:
  "readFunction ''2*floor(2.7)'' 2 = None
   \<and> readFunction_js ''2*floor(2.7)'' 2 = Some \<lparr>token = FunctionToken Ffloor, charsRead = 5\<rparr>
   \<and> tokenize ''2*floor(2.7)'' = Some (Inl (UnexpectedTokenOrSymbol ''f''))
   \<and> tokenize_js ''2*floor(2.7)'' =
       Some (Inr [NumberToken 2, OperatorToken op_times, FunctionToken Ffloor,
                  LeftParenthesisToken, NumberToken (27 / 10), RightParenthesisToken])"
proof -
  have a: "readFunction ''2*floor(2.7)'' 2 = None"
    by (simp add: readToken_eval)
  have b: "readFunction_js ''2*floor(2.7)'' 2 = Some \<lparr>token = FunctionToken Ffloor, charsRead = 5\<rparr>"
    by (simp add: readFunction_js_def readToken_eval)
  have c: "tokenize ''2*floor(2.7)'' = Some (Inl (UnexpectedTokenOrSymbol ''f''))"
    by (simp add: tokenize_eval)
  have d: "tokenize_js ''2*floor(2.7)'' =
       Some (Inr [NumberToken 2, OperatorToken op_times, FunctionToken Ffloor,
                  LeftParenthesisToken, NumberToken (27 / 10), RightParenthesisToken])"
    by (simp add: tokenize_js_def tokenize_loop_js.simps readToken_js_def readFunction_js_def
        isWhitespace_def readToken_eval)
  from a b c d show ?thesis by blast
qed

text \<open>
  C6. The function-name recognizer. In \<open>1+max(3,5)\<close> at index \<open>2\<close> the name \<open>max\<close> starts with
  a letter, runs up to index \<open>5\<close> and is a key of \<open>FunctionMap\<close>, yet \<open>readFunction\<close> reports no
  match, because \<open>substr(2, 5)\<close> takes five characters and not three; the tokenizer then
  throws. The two runs the claim names start their function name at index \<open>0\<close>, where the two
  calls agree: \<open>max(3,5)\<close> returns \<open>5\<close> and \<open>floor(2.7)\<close> returns \<open>2\<close>.
\<close>

theorem readFunction_examples:
  "isAlphabetic ''1+max(3,5)'' 2
   \<and> readFunction_loop ''1+max(3,5)'' 3 = 5
   \<and> substring ''1+max(3,5)'' 2 5 = ''max''
   \<and> FunctionMap ''max'' = Some Fmax
   \<and> substr ''1+max(3,5)'' 2 5 = ''max(3''
   \<and> readFunction ''1+max(3,5)'' 2 = None
   \<and> tokenize ''1+max(3,5)'' = Some (Inl (UnexpectedTokenOrSymbol ''m''))
   \<and> evaluate_create_tokenize ''max(3,5)'' = Some (Inr 5)
   \<and> evaluate_create_tokenize ''floor(2.7)'' = Some (Inr 2)"
proof -
  have a: "isAlphabetic ''1+max(3,5)'' 2" by (simp add: readToken_eval)
  have b: "readFunction_loop ''1+max(3,5)'' 3 = 5" by (simp add: readToken_eval)
  have c: "substring ''1+max(3,5)'' 2 5 = ''max''" by (simp add: readToken_eval)
  have d: "FunctionMap ''max'' = Some Fmax" by (simp add: readToken_eval)
  have e: "substr ''1+max(3,5)'' 2 5 = ''max(3''" by (simp add: readToken_eval)
  have f: "readFunction ''1+max(3,5)'' 2 = None" by (simp add: readToken_eval)
  have g: "tokenize ''1+max(3,5)'' = Some (Inl (UnexpectedTokenOrSymbol ''m''))"
    by (simp add: tokenize_eval)
  have h: "evaluate_create_tokenize ''max(3,5)'' = Some (Inr 5)" by (simp add: run_eval)
  have i: "evaluate_create_tokenize ''floor(2.7)'' = Some (Inr 2)" by (simp add: run_eval)
  from a b c d e f g h i show ?thesis by blast
qed

text \<open>
  C7. Operator lookup is longest-match. Whatever \<open>Operator.parse\<close> returns at an index is
  one of the seven operators, its symbol stands in the text there, and every other
  operator whose symbol stands there has a shorter symbol; when it returns nothing, no
  operator's symbol stands there. So \<open>2**3\<close> is read as the three tokens \<open>2\<close>, \<open>**\<close>, \<open>3\<close>.
\<close>

theorem Operator_parse_longest_match:
  "(case Operator_parse expr i of
      Some op \<Rightarrow>
        op \<in> set created_operators \<and> symbol_at op expr i
        \<and> (\<forall>op' \<in> set created_operators.
              symbol_at op' expr i \<longrightarrow> length (symbol op') < length (symbol op) \<or> op' = op)
    | None \<Rightarrow> (\<forall>op' \<in> set created_operators. \<not> symbol_at op' expr i))
   \<and> tokenize ''2**3'' = Some (Inr [NumberToken 2, OperatorToken op_power, NumberToken 3])"
proof -
  have "longest_match dictionary expr i (Operator_parse expr i)"
    unfolding Operator_parse_def
    by (rule Operator_parse_loop_longest[OF dictionary_sorted dictionary_entries_ok])
  then have "case Operator_parse expr i of
      Some op \<Rightarrow>
        op \<in> set created_operators \<and> symbol_at op expr i
        \<and> (\<forall>op' \<in> set created_operators.
              symbol_at op' expr i \<longrightarrow> length (symbol op') < length (symbol op) \<or> op' = op)
    | None \<Rightarrow> (\<forall>op' \<in> set created_operators. \<not> symbol_at op' expr i)"
    unfolding longest_match_def registered_dictionary
    by (cases "Operator_parse expr i") auto
  moreover have "tokenize ''2**3'' = Some (Inr [NumberToken 2, OperatorToken op_power, NumberToken 3])"
    by (simp add: tokenize_eval)
  ultimately show ?thesis by blast
qed

text \<open>
  C7 at index \<open>1\<close> of \<open>2**3\<close>: both \<open>*\<close> and \<open>**\<close> stand there, and \<open>**\<close> is returned.
\<close>

theorem Operator_parse_longest_match_witness:
  "Operator_parse ''2**3'' 1 = Some op_power
   \<and> op_times \<in> set created_operators \<and> symbol_at op_times ''2**3'' 1
   \<and> length (symbol op_times) < length (symbol op_power)"
proof -
  have p: "Operator_parse ''2**3'' 1 = Some op_power"
    by (simp add: Operator_parse_def dictionary_eq substring_def Let_def)
  have r: "op_times \<in> set created_operators" by (simp add: created_operators_def)
  have a: "symbol_at op_times ''2**3'' 1" by (simp add: symbol_at_def)
  have "op_times \<noteq> op_power" by (simp add: new_Operator_def)
  with Operator_parse_longest_match[of "''2**3''" 1] p r a show ?thesis
    by auto
qed

text \<open>
  C8. Associativity. The text \<open>2-3-4\<close> is read as three numbers and two subtractions; the
  tree builder groups it to the left, as \<open>(2-3)-4\<close>, and the run returns \<open>-5\<close>. The text
  \<open>2**3**2\<close> is grouped to the right, as \<open>2**(3**2)\<close>, and the run returns \<open>512\<close>.
\<close>

theorem associativity_examples:
  "tokenize ''2-3-4'' =
     Some (Inr [NumberToken 2, OperatorToken op_minus, NumberToken 3,
                OperatorToken op_minus, NumberToken 4])
   \<and> create [NumberToken 2, OperatorToken op_minus, NumberToken 3,
              OperatorToken op_minus, NumberToken 4] =
       Inr (Some (binary op_minus (binary op_minus (leaf 2) (leaf 3)) (leaf 4)))
   \<and> evaluate_create_tokenize ''2-3-4'' = Some (Inr (- 5))
   \<and> tokenize ''2**3**2'' =
       Some (Inr [NumberToken 2, OperatorToken op_power, NumberToken 3,
                  OperatorToken op_power, NumberToken 2])
   \<and> create [NumberToken 2, OperatorToken op_power, NumberToken 3,
              OperatorToken op_power, NumberToken 2] =
       Inr (Some (binary op_power (leaf 2) (binary op_power (leaf 3) (leaf 2))))
   \<and> evaluate_create_tokenize ''2**3**2'' = Some (Inr 512)"
proof -
  have t1: "tokenize ''2-3-4'' =
     Some (Inr [NumberToken 2, OperatorToken op_minus, NumberToken 3,
                OperatorToken op_minus, NumberToken 4])"
    by (simp add: tokenize_eval)
  have c1: "create [NumberToken 2, OperatorToken op_minus, NumberToken 3,
              OperatorToken op_minus, NumberToken 4] =
       Inr (Some (binary op_minus (binary op_minus (leaf 2) (leaf 3)) (leaf 4)))"
    by (simp add: create_eval)
  have e1: "evaluate_create_tokenize ''2-3-4'' = Some (Inr (- 5))"
    by (simp add: evaluate_create_tokenize_def t1 c1)
  have t2: "tokenize ''2**3**2'' =
       Some (Inr [NumberToken 2, OperatorToken op_power, NumberToken 3,
                  OperatorToken op_power, NumberToken 2])"
    by (simp add: tokenize_eval)
  have c2: "create [NumberToken 2, OperatorToken op_power, NumberToken 3,
              OperatorToken op_power, NumberToken 2] =
       Inr (Some (binary op_power (leaf 2) (binary op_power (leaf 3) (leaf 2))))"
    by (simp add: create_eval)
  have e2: "evaluate_create_tokenize ''2**3**2'' = Some (Inr 512)"
    by (simp add: evaluate_create_tokenize_def t2 c2)
  from t1 c1 e1 t2 c2 e2 show ?thesis by blast
qed

text \<open>
  C9, as the code has it. A right parenthesis ends with the error for a mismatched right
  parenthesis when the reductions of the tokens on the operator stack all succeed and
  empty it; the end of the input ends with the error for a mismatched left parenthesis when
  the reductions of the tokens above a left parenthesis all succeed and reach it. When a
  reduction on the way fails, \<open>AST.create\<close> fails with the error of that reduction, in
  either loop. One of the two always happens: without a left parenthesis on the stack the
  reductions empty it or one of them fails, and with a left parenthesis on the stack they
  reach it or one of them fails. So \<open>AST.create\<close> fails in both situations, with the
  parenthesis error or with the error for too few expressions, the only error a reduction
  has on the stacks \<open>AST.create\<close> builds. The two inputs of the claim behave as it says;
  \<open>(1+\<close> and \<open>+)\<close> end with the error for too few expressions.
\<close>

theorem mismatched_parentheses:
  "(\<forall>before after opStack exprStack n exprStack'.
      tokens_loop before [] [] = Inr (opStack, exprStack)
      \<and> pops n opStack exprStack = Some ([], exprStack')
      \<longrightarrow> create (before @ RightParenthesisToken # after) = Inl MismatchedRightParenthesis)
   \<and> (\<forall>tokens opStack exprStack n rest exprStack'.
      tokens_loop tokens [] [] = Inr (opStack, exprStack)
      \<and> pops n opStack exprStack = Some (LeftParenthesisToken # rest, exprStack')
      \<longrightarrow> create tokens = Inl MismatchedLeftParenthesis)
   \<and> (\<forall>before after opStack exprStack n t rest exprStack' e.
      tokens_loop before [] [] = Inr (opStack, exprStack)
      \<and> pops n opStack exprStack = Some (t # rest, exprStack')
      \<and> type t \<noteq> LeftParenthesis \<and> popOperator (t # rest) exprStack' = Inl e
      \<longrightarrow> create (before @ RightParenthesisToken # after) = Inl e)
   \<and> (\<forall>tokens opStack exprStack n t rest exprStack' e.
      tokens_loop tokens [] [] = Inr (opStack, exprStack)
      \<and> pops n opStack exprStack = Some (t # rest, exprStack')
      \<and> type t \<noteq> LeftParenthesis \<and> popOperator (t # rest) exprStack' = Inl e
      \<longrightarrow> create tokens = Inl e)
   \<and> (\<forall>opStack exprStack. LeftParenthesisToken \<notin> set opStack
      \<longrightarrow> (\<exists>n exprStack'. pops n opStack exprStack = Some ([], exprStack'))
          \<or> (\<exists>n t rest exprStack' e. pops n opStack exprStack = Some (t # rest, exprStack')
                \<and> type t \<noteq> LeftParenthesis \<and> popOperator (t # rest) exprStack' = Inl e))
   \<and> (\<forall>opStack exprStack. LeftParenthesisToken \<in> set opStack
      \<longrightarrow> (\<exists>n rest exprStack'.
             pops n opStack exprStack = Some (LeftParenthesisToken # rest, exprStack'))
          \<or> (\<exists>n t rest exprStack' e. pops n opStack exprStack = Some (t # rest, exprStack')
                \<and> type t \<noteq> LeftParenthesis \<and> popOperator (t # rest) exprStack' = Inl e))
   \<and> (\<forall>opStack exprStack. LeftParenthesisToken \<notin> set opStack
      \<longrightarrow> (\<exists>e. process_token RightParenthesisToken opStack exprStack = Inl e))
   \<and> (\<forall>tokens opStack exprStack.
      tokens_loop tokens [] [] = Inr (opStack, exprStack) \<and> LeftParenthesisToken \<in> set opStack
      \<longrightarrow> (\<exists>e. create tokens = Inl e))
   \<and> (\<forall>before after opStack exprStack.
      tokens_loop before [] [] = Inr (opStack, exprStack) \<and> LeftParenthesisToken \<notin> set opStack
      \<longrightarrow> create (before @ RightParenthesisToken # after) = Inl MismatchedRightParenthesis
          \<or> create (before @ RightParenthesisToken # after) = Inl NotEnoughExpressions)
   \<and> (\<forall>tokens opStack exprStack.
      tokens_loop tokens [] [] = Inr (opStack, exprStack) \<and> LeftParenthesisToken \<in> set opStack
      \<longrightarrow> create tokens = Inl MismatchedLeftParenthesis
          \<or> create tokens = Inl NotEnoughExpressions)
   \<and> tokenize ''1+2)'' =
       Some (Inr [NumberToken 1, OperatorToken op_plus, NumberToken 2, RightParenthesisToken])
   \<and> create [NumberToken 1, OperatorToken op_plus, NumberToken 2, RightParenthesisToken] =
       Inl MismatchedRightParenthesis
   \<and> tokenize ''(1+2'' =
       Some (Inr [LeftParenthesisToken, NumberToken 1, OperatorToken op_plus, NumberToken 2])
   \<and> create [LeftParenthesisToken, NumberToken 1, OperatorToken op_plus, NumberToken 2] =
       Inl MismatchedLeftParenthesis
   \<and> tokenize ''(1+'' = Some (Inr [LeftParenthesisToken, NumberToken 1, OperatorToken op_plus])
   \<and> create [LeftParenthesisToken, NumberToken 1, OperatorToken op_plus] =
       Inl NotEnoughExpressions
   \<and> tokenize ''+)'' = Some (Inr [OperatorToken op_plus, RightParenthesisToken])
   \<and> create [OperatorToken op_plus, RightParenthesisToken] = Inl NotEnoughExpressions"
proof -
  have r: "create (before @ RightParenthesisToken # after) = Inl MismatchedRightParenthesis"
    if "tokens_loop before [] [] = Inr (opStack, exprStack)"
      and "pops n opStack exprStack = Some ([], exprStack')"
    for before after opStack exprStack n exprStack'
    using create_right[OF that(1) rightParenthesis_runs_out[OF that(2)]] .
  have l: "create tokens = Inl MismatchedLeftParenthesis"
    if "tokens_loop tokens [] [] = Inr (opStack, exprStack)"
      and "pops n opStack exprStack = Some (LeftParenthesisToken # rest, exprStack')"
    for tokens opStack exprStack n rest exprStack'
    using create_end[OF that(1) remaining_finds_left[OF that(2)]] .
  have rr: "create (before @ RightParenthesisToken # after) = Inl e"
    if "tokens_loop before [] [] = Inr (opStack, exprStack)"
      and "pops n opStack exprStack = Some (t # rest, exprStack')"
      and "type t \<noteq> LeftParenthesis" and "popOperator (t # rest) exprStack' = Inl e"
    for before after opStack exprStack n t rest exprStack' e
    using create_right[OF that(1) rightParenthesis_reduction_fails[OF that(2,3,4)]] .
  have lr: "create tokens = Inl e"
    if "tokens_loop tokens [] [] = Inr (opStack, exprStack)"
      and "pops n opStack exprStack = Some (t # rest, exprStack')"
      and "type t \<noteq> LeftParenthesis" and "popOperator (t # rest) exprStack' = Inl e"
    for tokens opStack exprStack n t rest exprStack' e
    using create_end[OF that(1) remaining_reduction_fails[OF that(2,3,4)]] .
  have rf: "\<exists>e. process_token RightParenthesisToken opStack exprStack = Inl e"
    if "LeftParenthesisToken \<notin> set opStack" for opStack exprStack
    using rightParenthesis_fails[OF that] by simp
  have lf: "\<exists>e. create tokens = Inl e"
    if "tokens_loop tokens [] [] = Inr (opStack, exprStack)"
      and "LeftParenthesisToken \<in> set opStack"
    for tokens opStack exprStack
    using that(1) remaining_fails[OF that(2), of exprStack]
    by (auto simp: create_def)
  have t1: "tokenize ''1+2)'' =
       Some (Inr [NumberToken 1, OperatorToken op_plus, NumberToken 2, RightParenthesisToken])"
    by (simp add: tokenize_eval)
  have c1: "create [NumberToken 1, OperatorToken op_plus, NumberToken 2, RightParenthesisToken] =
       Inl MismatchedRightParenthesis"
    by (simp add: create_eval)
  have t2: "tokenize ''(1+2'' =
       Some (Inr [LeftParenthesisToken, NumberToken 1, OperatorToken op_plus, NumberToken 2])"
    by (simp add: tokenize_eval)
  have c2: "create [LeftParenthesisToken, NumberToken 1, OperatorToken op_plus, NumberToken 2] =
       Inl MismatchedLeftParenthesis"
    by (simp add: create_eval)
  have t3: "tokenize ''(1+'' =
       Some (Inr [LeftParenthesisToken, NumberToken 1, OperatorToken op_plus])"
    by (simp add: tokenize_eval)
  have c3: "create [LeftParenthesisToken, NumberToken 1, OperatorToken op_plus] =
       Inl NotEnoughExpressions"
    by (simp add: create_eval)
  have t4: "tokenize ''+)'' = Some (Inr [OperatorToken op_plus, RightParenthesisToken])"
    by (simp add: tokenize_eval)
  have c4: "create [OperatorToken op_plus, RightParenthesisToken] = Inl NotEnoughExpressions"
    by (simp add: create_eval)
  have g1: "\<forall>before after opStack exprStack n exprStack'.
      tokens_loop before [] [] = Inr (opStack, exprStack)
      \<and> pops n opStack exprStack = Some ([], exprStack')
      \<longrightarrow> create (before @ RightParenthesisToken # after) = Inl MismatchedRightParenthesis"
    using r by blast
  have g2: "\<forall>tokens opStack exprStack n rest exprStack'.
      tokens_loop tokens [] [] = Inr (opStack, exprStack)
      \<and> pops n opStack exprStack = Some (LeftParenthesisToken # rest, exprStack')
      \<longrightarrow> create tokens = Inl MismatchedLeftParenthesis"
    using l by blast
  have g3: "\<forall>before after opStack exprStack n t rest exprStack' e.
      tokens_loop before [] [] = Inr (opStack, exprStack)
      \<and> pops n opStack exprStack = Some (t # rest, exprStack')
      \<and> type t \<noteq> LeftParenthesis \<and> popOperator (t # rest) exprStack' = Inl e
      \<longrightarrow> create (before @ RightParenthesisToken # after) = Inl e"
    using rr by blast
  have g4: "\<forall>tokens opStack exprStack n t rest exprStack' e.
      tokens_loop tokens [] [] = Inr (opStack, exprStack)
      \<and> pops n opStack exprStack = Some (t # rest, exprStack')
      \<and> type t \<noteq> LeftParenthesis \<and> popOperator (t # rest) exprStack' = Inl e
      \<longrightarrow> create tokens = Inl e"
    using lr by blast
  have g5: "\<forall>opStack exprStack. LeftParenthesisToken \<notin> set opStack
      \<longrightarrow> (\<exists>n exprStack'. pops n opStack exprStack = Some ([], exprStack'))
          \<or> (\<exists>n t rest exprStack' e. pops n opStack exprStack = Some (t # rest, exprStack')
                \<and> type t \<noteq> LeftParenthesis \<and> popOperator (t # rest) exprStack' = Inl e)"
    using pops_without_left by blast
  have g6: "\<forall>opStack exprStack. LeftParenthesisToken \<in> set opStack
      \<longrightarrow> (\<exists>n rest exprStack'.
             pops n opStack exprStack = Some (LeftParenthesisToken # rest, exprStack'))
          \<or> (\<exists>n t rest exprStack' e. pops n opStack exprStack = Some (t # rest, exprStack')
                \<and> type t \<noteq> LeftParenthesis \<and> popOperator (t # rest) exprStack' = Inl e)"
    using pops_with_left by blast
  have g7: "\<forall>opStack exprStack. LeftParenthesisToken \<notin> set opStack
      \<longrightarrow> (\<exists>e. process_token RightParenthesisToken opStack exprStack = Inl e)"
    using rf by blast
  have g8: "\<forall>tokens opStack exprStack.
      tokens_loop tokens [] [] = Inr (opStack, exprStack) \<and> LeftParenthesisToken \<in> set opStack
      \<longrightarrow> (\<exists>e. create tokens = Inl e)"
    using lf by blast
  have g9: "\<forall>before after opStack exprStack.
      tokens_loop before [] [] = Inr (opStack, exprStack) \<and> LeftParenthesisToken \<notin> set opStack
      \<longrightarrow> create (before @ RightParenthesisToken # after) = Inl MismatchedRightParenthesis
          \<or> create (before @ RightParenthesisToken # after) = Inl NotEnoughExpressions"
    using right_errors by blast
  have g10: "\<forall>tokens opStack exprStack.
      tokens_loop tokens [] [] = Inr (opStack, exprStack) \<and> LeftParenthesisToken \<in> set opStack
      \<longrightarrow> create tokens = Inl MismatchedLeftParenthesis
          \<or> create tokens = Inl NotEnoughExpressions"
    using left_errors by blast
  show ?thesis
    by (intro conjI g1 g2 g3 g4 g5 g6 g7 g8 g9 g10 t1 c1 t2 c2 t3 c3 t4 c4)
qed

text \<open>
  C9, the amended statement at the tokens of \<open>1+2)*3\<close> and of \<open>(1+2\<close>, where the reductions
  succeed, and at the tokens of \<open>(1+\<close> and of \<open>+)\<close>, where the reduction of \<open>+\<close> fails.
\<close>

theorem mismatched_parentheses_witness:
  "tokens_loop [NumberToken 1, OperatorToken op_plus, NumberToken 2] [] [] =
     Inr ([OperatorToken op_plus], [leaf 2, leaf 1])
   \<and> pops 1 [OperatorToken op_plus] [leaf 2, leaf 1] =
       Some ([], [binary op_plus (leaf 1) (leaf 2)])
   \<and> create ([NumberToken 1, OperatorToken op_plus, NumberToken 2]
              @ RightParenthesisToken # [OperatorToken op_times, NumberToken 3]) =
       Inl MismatchedRightParenthesis
   \<and> tokens_loop [LeftParenthesisToken, NumberToken 1, OperatorToken op_plus, NumberToken 2] [] [] =
       Inr ([OperatorToken op_plus, LeftParenthesisToken], [leaf 2, leaf 1])
   \<and> pops 1 [OperatorToken op_plus, LeftParenthesisToken] [leaf 2, leaf 1] =
       Some ([LeftParenthesisToken], [binary op_plus (leaf 1) (leaf 2)])
   \<and> create [LeftParenthesisToken, NumberToken 1, OperatorToken op_plus, NumberToken 2] =
       Inl MismatchedLeftParenthesis
   \<and> tokens_loop [LeftParenthesisToken, NumberToken 1, OperatorToken op_plus] [] [] =
       Inr ([OperatorToken op_plus, LeftParenthesisToken], [leaf 1])
   \<and> pops 0 [OperatorToken op_plus, LeftParenthesisToken] [leaf 1] =
       Some ([OperatorToken op_plus, LeftParenthesisToken], [leaf 1])
   \<and> type (OperatorToken op_plus) \<noteq> LeftParenthesis
   \<and> popOperator [OperatorToken op_plus, LeftParenthesisToken] [leaf 1] =
       Inl NotEnoughExpressions
   \<and> LeftParenthesisToken \<in> set [OperatorToken op_plus, LeftParenthesisToken]
   \<and> create [LeftParenthesisToken, NumberToken 1, OperatorToken op_plus] =
       Inl NotEnoughExpressions
   \<and> tokens_loop [OperatorToken op_plus] [] [] = Inr ([OperatorToken op_plus], [])
   \<and> pops 0 [OperatorToken op_plus] [] = Some ([OperatorToken op_plus], [])
   \<and> popOperator [OperatorToken op_plus] [] = Inl NotEnoughExpressions
   \<and> LeftParenthesisToken \<notin> set [OperatorToken op_plus]
   \<and> create ([OperatorToken op_plus] @ RightParenthesisToken # []) = Inl NotEnoughExpressions"
proof -
  have a: "tokens_loop [NumberToken 1, OperatorToken op_plus, NumberToken 2] [] [] =
     Inr ([OperatorToken op_plus], [leaf 2, leaf 1])"
    by simp
  have b: "pops 1 [OperatorToken op_plus] [leaf 2, leaf 1] =
       Some ([], [binary op_plus (leaf 1) (leaf 2)])"
    by (simp add: popOperator_def)
  have c: "tokens_loop [LeftParenthesisToken, NumberToken 1, OperatorToken op_plus, NumberToken 2] [] [] =
       Inr ([OperatorToken op_plus, LeftParenthesisToken], [leaf 2, leaf 1])"
    by simp
  have d: "pops 1 [OperatorToken op_plus, LeftParenthesisToken] [leaf 2, leaf 1] =
       Some ([LeftParenthesisToken], [binary op_plus (leaf 1) (leaf 2)])"
    by (simp add: popOperator_def)
  have g: "tokens_loop [LeftParenthesisToken, NumberToken 1, OperatorToken op_plus] [] [] =
       Inr ([OperatorToken op_plus, LeftParenthesisToken], [leaf 1])"
    by simp
  have h: "pops 0 [OperatorToken op_plus, LeftParenthesisToken] [leaf 1] =
       Some ([OperatorToken op_plus, LeftParenthesisToken], [leaf 1])"
    by simp
  have i: "type (OperatorToken op_plus) \<noteq> LeftParenthesis" by simp
  have j: "popOperator [OperatorToken op_plus, LeftParenthesisToken] [leaf 1] =
       Inl NotEnoughExpressions"
    by (simp add: popOperator_def)
  have k: "LeftParenthesisToken \<in> set [OperatorToken op_plus, LeftParenthesisToken]" by simp
  have m: "tokens_loop [OperatorToken op_plus] [] [] = Inr ([OperatorToken op_plus], [])"
    by simp
  have n: "pops 0 [OperatorToken op_plus] [] = Some ([OperatorToken op_plus], [])" by simp
  have o: "popOperator [OperatorToken op_plus] [] = Inl NotEnoughExpressions"
    by (simp add: popOperator_def)
  have q: "LeftParenthesisToken \<notin> set [OperatorToken op_plus]" by simp
  note right_empty = mismatched_parentheses[THEN conjunct1, rule_format]
  note left_reached = mismatched_parentheses[THEN conjunct2, THEN conjunct1, rule_format]
  note right_reduction =
    mismatched_parentheses[THEN conjunct2, THEN conjunct2, THEN conjunct1, rule_format]
  note end_reduction =
    mismatched_parentheses[THEN conjunct2, THEN conjunct2, THEN conjunct2, THEN conjunct1,
      rule_format]
  have e: "create ([NumberToken 1, OperatorToken op_plus, NumberToken 2]
              @ RightParenthesisToken # [OperatorToken op_times, NumberToken 3]) =
       Inl MismatchedRightParenthesis"
    by (rule right_empty[OF conjI[OF a b]])
  have f: "create [LeftParenthesisToken, NumberToken 1, OperatorToken op_plus, NumberToken 2] =
       Inl MismatchedLeftParenthesis"
    by (rule left_reached[OF conjI[OF c d]])
  have u: "create [LeftParenthesisToken, NumberToken 1, OperatorToken op_plus] =
       Inl NotEnoughExpressions"
    by (rule end_reduction[OF conjI[OF g conjI[OF h conjI[OF i j]]]])
  have w: "create ([OperatorToken op_plus] @ RightParenthesisToken # []) = Inl NotEnoughExpressions"
    by (rule right_reduction[OF conjI[OF m conjI[OF n conjI[OF i o]]]])
  show ?thesis
    by (intro conjI a b e c d f g h i j k u m n o q w)
qed

text \<open>
  C9 as stated fails: in \<open>(1+\<close> a left parenthesis remains on the operator stack at the end
  of the input, and in \<open>+)\<close> a right parenthesis finds no left parenthesis; both end with the
  error of the reduction of \<open>+\<close>, which lacks operands, and not with a parenthesis error.
\<close>

theorem reduction_error_before_parenthesis_error:
  "tokenize ''(1+'' = Some (Inr [LeftParenthesisToken, NumberToken 1, OperatorToken op_plus])
   \<and> tokens_loop [LeftParenthesisToken, NumberToken 1, OperatorToken op_plus] [] [] =
       Inr ([OperatorToken op_plus, LeftParenthesisToken], [leaf 1])
   \<and> create [LeftParenthesisToken, NumberToken 1, OperatorToken op_plus] =
       Inl NotEnoughExpressions
   \<and> tokenize ''+)'' = Some (Inr [OperatorToken op_plus, RightParenthesisToken])
   \<and> create [OperatorToken op_plus, RightParenthesisToken] = Inl NotEnoughExpressions"
  by (simp add: tokenize_eval create_eval)

text \<open>
  C10. The tokenizer returns on every string. Whatever \<open>readNumber\<close>, \<open>Operator.parse\<close>,
  \<open>readFunction\<close> and so \<open>readToken\<close> recognise is at least one character long, and every
  turn of the loop of \<open>tokenize\<close> below the end of the string skips one white-space
  character, moves the index forward by the length of the token read, or ends with the
  exception for an unexpected symbol.
\<close>

theorem tokenize_terminates:
  "(\<exists>r. tokenize expr = Some r)
   \<and> (\<forall>index info. readNumber expr index = Some info \<longrightarrow> 1 \<le> charsRead info)
   \<and> (\<forall>index op. Operator_parse expr index = Some op \<longrightarrow> 1 \<le> length (symbol op))
   \<and> (\<forall>index info. readFunction expr index = Some info \<longrightarrow> 1 \<le> charsRead info)
   \<and> (\<forall>index info. readToken expr index = Some info \<longrightarrow> 1 \<le> charsRead info)
   \<and> (\<forall>i tokenList. i < length expr \<longrightarrow>
         (isWhitespace (charCodeAt expr i)
            \<and> tokenize_loop expr i tokenList = tokenize_loop expr (i + 1) tokenList)
         \<or> (\<exists>info. readToken expr i = Some info \<and> 1 \<le> charsRead info
               \<and> tokenize_loop expr i tokenList =
                   tokenize_loop expr (i + charsRead info) (tokenList @ [token info]))
         \<or> tokenize_loop expr i tokenList = Some (Inl (UnexpectedTokenOrSymbol (charAt expr i))))"
proof -
  have returns: "\<exists>r. tokenize expr = Some r"
    unfolding tokenize_def by (rule tokenize_loop_returns)
  have operators: "1 \<le> length (symbol op)" if "Operator_parse expr index = Some op" for index op
    using that by (blast dest: Operator_parse_registered created_operators_symbol)
  have step:
    "(isWhitespace (charCodeAt expr i)
        \<and> tokenize_loop expr i tokenList = tokenize_loop expr (i + 1) tokenList)
     \<or> (\<exists>info. readToken expr i = Some info \<and> 1 \<le> charsRead info
           \<and> tokenize_loop expr i tokenList =
               tokenize_loop expr (i + charsRead info) (tokenList @ [token info]))
     \<or> tokenize_loop expr i tokenList = Some (Inl (UnexpectedTokenOrSymbol (charAt expr i)))"
    if lt: "i < length expr" for i tokenList
  proof (cases "isWhitespace (charCodeAt expr i)")
    case True
    with lt have "tokenize_loop expr i tokenList = tokenize_loop expr (i + 1) tokenList"
      by (subst tokenize_loop.simps) simp
    with True show ?thesis by blast
  next
    case False
    show ?thesis
    proof (cases "readToken expr i")
      case None
      with lt False
      have "tokenize_loop expr i tokenList = Some (Inl (UnexpectedTokenOrSymbol (charAt expr i)))"
        by (subst tokenize_loop.simps) simp
      then show ?thesis by blast
    next
      case (Some info)
      with lt False
      have "tokenize_loop expr i tokenList =
              tokenize_loop expr (i + charsRead info) (tokenList @ [token info])"
        by (subst tokenize_loop.simps) simp
      with Some readToken_charsRead[OF Some] show ?thesis by blast
    qed
  qed
  from returns operators step show ?thesis
    by (blast intro: readNumber_charsRead readFunction_charsRead readToken_charsRead)
qed

text \<open>C10 at the text \<open>12 +3\<close>, whose first token is two characters long.\<close>

theorem tokenize_terminates_witness:
  "readToken ''12 +3'' 0 = Some \<lparr>token = NumberToken 12, charsRead = 2\<rparr>
   \<and> 1 \<le> charsRead \<lparr>token = NumberToken 12, charsRead = 2\<rparr>
   \<and> tokenize ''12 +3'' = Some (Inr [NumberToken 12, OperatorToken op_plus, NumberToken 3])"
proof -
  have r: "readToken ''12 +3'' 0 = Some \<lparr>token = NumberToken 12, charsRead = 2\<rparr>"
    by (simp add: readToken_eval)
  from tokenize_terminates[of "''12 +3''"] r
  have "1 \<le> charsRead \<lparr>token = NumberToken 12, charsRead = 2\<rparr>" by blast
  moreover have "tokenize ''12 +3'' = Some (Inr [NumberToken 12, OperatorToken op_plus, NumberToken 3])"
    by (simp add: tokenize_eval)
  ultimately show ?thesis using r by blast
qed

end
